theory Spec2Isabelle
  imports Complex_Main "HOL-Library.Word" "HOL-Library.Multiset"
begin

unbundle bit_operations_syntax

section \<open>Rasters and the raster operations the scripts call\<close>

text \<open>
  The scripts are written against a raster platform whose images carry, per band and per
  pixel, either a number or no value (a masked pixel).  A band is modelled as a function
  from pixel positions to \<open>real option\<close>, \<open>None\<close> being a masked pixel.  Band values are
  exact reals: the platform computes in double precision, the model in ideal arithmetic.
  The quality band of a scene is a 16-bit bit field and is kept apart from the numeric
  bands, as the scene description of the specification has it.
\<close>

type_synonym pixel = "int \<times> int"
type_synonym raster = "pixel \<Rightarrow> real option"
type_synonym qa_raster = "pixel \<Rightarrow> 16 word option"

record image =
  bands :: "(string \<times> raster) list"
  QA_PIXEL :: qa_raster
  SPACECRAFT_ID :: string

datatype error =
    UnknownSatellite string
  | UnsupportedStatistic string
  | UnsupportedNdviType string
  | ReferenceError string
  | BandNotFound string
  | CollectionNotFound string
  | TypeError string

text \<open>\<open>image.select(name)\<close>: the first band of that name; the platform reports an error
  when no band matches.\<close>

definition select :: "image \<Rightarrow> string \<Rightarrow> raster option" where
  "select img b = map_of (bands img) b"

text \<open>\<open>band.multiply(c)\<close> and \<open>band.add(c)\<close> with a constant: pointwise on the valid
  pixels, masked pixels stay masked.\<close>

definition multiply :: "raster \<Rightarrow> real \<Rightarrow> raster" where
  "multiply r c = (\<lambda>p. map_option (\<lambda>x. x * c) (r p))"

definition add :: "raster \<Rightarrow> real \<Rightarrow> raster" where
  "add r c = (\<lambda>p. map_option (\<lambda>x. x + c) (r p))"

text \<open>The platform's division: the quotient, and 0 for a division by 0 (as the platform
  documents its divide operation).\<close>

definition ee_divide :: "real \<Rightarrow> real \<Rightarrow> real" where
  "ee_divide x y = (if y = 0 then 0 else x / y)"

text \<open>\<open>image.expression(formula, {a: A, b: B})\<close> for a formula of two variables: evaluated
  pointwise where both operands have a value, masked elsewhere.\<close>

definition expression :: "(real \<Rightarrow> real \<Rightarrow> real) \<Rightarrow> raster \<Rightarrow> raster \<Rightarrow> raster" where
  "expression f a b =
     (\<lambda>p. case a p of None \<Rightarrow> None
          | Some x \<Rightarrow> (case b p of None \<Rightarrow> None | Some y \<Rightarrow> Some (f x y)))"

text \<open>\<open>band.lt(c)\<close> and \<open>band.gt(c)\<close>: a truth value per valid pixel.\<close>

definition lt :: "raster \<Rightarrow> real \<Rightarrow> pixel \<Rightarrow> bool option" where
  "lt r c = (\<lambda>p. map_option (\<lambda>x. x < c) (r p))"

definition gt :: "raster \<Rightarrow> real \<Rightarrow> pixel \<Rightarrow> bool option" where
  "gt r c = (\<lambda>p. map_option (\<lambda>x. c < x) (r p))"

text \<open>\<open>input.where(test, value)\<close>: the constant replaces the input where the test holds;
  where the test is masked the input is kept; a masked input stays masked.\<close>

definition where_const :: "raster \<Rightarrow> (pixel \<Rightarrow> bool option) \<Rightarrow> real \<Rightarrow> raster" where
  "where_const input test v =
     (\<lambda>p. case input p of None \<Rightarrow> None
          | Some x \<Rightarrow> (case test p of Some True \<Rightarrow> Some v | _ \<Rightarrow> Some x))"

text \<open>\<open>image.addBands(band)\<close> without overwriting: the band is appended after the bands
  of the image; when its name is already taken the platform suffixes the new name.\<close>

definition addBands :: "image \<Rightarrow> string \<Rightarrow> raster \<Rightarrow> image" where
  "addBands img b r =
     img\<lparr>bands := bands img @
       [(if b \<in> set (map fst (bands img)) then b @ ''_1'' else b, r)]\<rparr>"

text \<open>The bit operations on the quality band, and the logical \<open>or\<close> and \<open>not\<close> of the
  platform (a value counts as true when it is not 0; the result is 1 or 0).\<close>

definition bitwiseAnd :: "qa_raster \<Rightarrow> 16 word \<Rightarrow> qa_raster" where
  "bitwiseAnd qa c = (\<lambda>p. map_option (\<lambda>q. q AND c) (qa p))"

definition ee_or :: "qa_raster \<Rightarrow> qa_raster \<Rightarrow> qa_raster" where
  "ee_or a b =
     (\<lambda>p. case a p of None \<Rightarrow> None
          | Some x \<Rightarrow> (case b p of None \<Rightarrow> None
                       | Some y \<Rightarrow> Some (if x \<noteq> 0 \<or> y \<noteq> 0 then 1 else 0)))"

definition ee_not :: "qa_raster \<Rightarrow> qa_raster" where
  "ee_not a = (\<lambda>p. map_option (\<lambda>x. if x = 0 then 1 else 0) (a p))"

text \<open>\<open>image.updateMask(mask)\<close>: in every band of the image a pixel keeps its value only
  where the mask has a value that is not 0; the bands themselves stay.\<close>

definition mask_band :: "qa_raster \<Rightarrow> (pixel \<Rightarrow> 'a option) \<Rightarrow> (pixel \<Rightarrow> 'a option)" where
  "mask_band m r =
     (\<lambda>p. case m p of None \<Rightarrow> None | Some v \<Rightarrow> (if v \<noteq> 0 then r p else None))"

definition updateMask :: "image \<Rightarrow> qa_raster \<Rightarrow> image" where
  "updateMask img m =
     img\<lparr>bands := map (\<lambda>(n, r). (n, mask_band m r)) (bands img),
         QA_PIXEL := mask_band m (QA_PIXEL img)\<rparr>"

section \<open>Cloud masking (maskClouds)\<close>

definition maskClouds :: "image \<Rightarrow> image" where
  "maskClouds img =
     (let qa = QA_PIXEL img;
          cloudMask = ee_or (bitwiseAnd qa (push_bit 3 1)) (bitwiseAnd qa (push_bit 4 1))
      in updateMask img (ee_not cloudMask))"

section \<open>Band names per satellite (getBandNames), one version per index script\<close>

record ndvi_bands =
  nir :: string
  red :: string

definition getBandNames :: "string \<Rightarrow> ndvi_bands" where
  "getBandNames satellite =
     (if satellite = ''L8'' \<or> satellite = ''L9''
      then \<lparr>nir = ''SR_B5'', red = ''SR_B4''\<rparr>
      else \<lparr>nir = ''SR_B4'', red = ''SR_B3''\<rparr>)"

record ndbi_bands =
  swir :: string
  ndbi_nir :: string

definition getBandNames_ndbi :: "string \<Rightarrow> ndbi_bands" where
  "getBandNames_ndbi satellite =
     (if satellite = ''L8'' \<or> satellite = ''L9''
      then \<lparr>swir = ''SR_B7'', ndbi_nir = ''SR_B5''\<rparr>
      else \<lparr>swir = ''SR_B7'', ndbi_nir = ''SR_B4''\<rparr>)"

record ndwi_bands =
  ndwi_nir :: string
  green :: string

definition getBandNames_ndwi :: "string \<Rightarrow> ndwi_bands" where
  "getBandNames_ndwi satellite =
     (if satellite = ''L8'' \<or> satellite = ''L9''
      then \<lparr>ndwi_nir = ''SR_B5'', green = ''SR_B3''\<rparr>
      else \<lparr>ndwi_nir = ''SR_B4'', green = ''SR_B2''\<rparr>)"

section \<open>Index computation (computeNDVI, computeNDBI, computeNDWI)\<close>

text \<open>Each function selects two bands, rescales both (times 0.0000275, plus -0.2),
  evaluates the normalized difference and then replaces values below -1 by -1 and values
  above 1 by 1.  Both tests of the two \<open>where\<close> calls read the unclamped band.\<close>

definition computeNDVI :: "image \<Rightarrow> string \<Rightarrow> error + image" where
  "computeNDVI img satellite =
     (let bs = getBandNames satellite in
      case select img (nir bs) of None \<Rightarrow> Inl (BandNotFound (nir bs))
      | Some nirBand \<Rightarrow>
      (case select img (red bs) of None \<Rightarrow> Inl (BandNotFound (red bs))
       | Some redBand \<Rightarrow>
         (let ndvi = expression (\<lambda>n r. ee_divide (n - r) (n + r))
                       (add (multiply nirBand 0.0000275) (- 0.2))
                       (add (multiply redBand 0.0000275) (- 0.2));
              ndvi' = where_const (where_const ndvi (lt ndvi (- 1)) (- 1)) (gt ndvi 1) 1
          in Inr (addBands img ''NDVI'' ndvi'))))"

definition computeNDBI :: "image \<Rightarrow> string \<Rightarrow> error + image" where
  "computeNDBI img satellite =
     (let bs = getBandNames_ndbi satellite in
      case select img (swir bs) of None \<Rightarrow> Inl (BandNotFound (swir bs))
      | Some swirBand \<Rightarrow>
      (case select img (ndbi_nir bs) of None \<Rightarrow> Inl (BandNotFound (ndbi_nir bs))
       | Some nirBand \<Rightarrow>
         (let ndbi = expression (\<lambda>s n. ee_divide (s - n) (s + n))
                       (add (multiply swirBand 0.0000275) (- 0.2))
                       (add (multiply nirBand 0.0000275) (- 0.2));
              ndbi' = where_const (where_const ndbi (lt ndbi (- 1)) (- 1)) (gt ndbi 1) 1
          in Inr (addBands img ''NDBI'' ndbi'))))"

definition computeNDWI :: "image \<Rightarrow> string \<Rightarrow> error + image" where
  "computeNDWI img satellite =
     (let bs = getBandNames_ndwi satellite in
      case select img (green bs) of None \<Rightarrow> Inl (BandNotFound (green bs))
      | Some greenBand \<Rightarrow>
      (case select img (ndwi_nir bs) of None \<Rightarrow> Inl (BandNotFound (ndwi_nir bs))
       | Some nirBand \<Rightarrow>
         (let ndwi = expression (\<lambda>g n. ee_divide (g - n) (g + n))
                       (add (multiply greenBand 0.0000275) (- 0.2))
                       (add (multiply nirBand 0.0000275) (- 0.2));
              ndwi' = where_const (where_const ndwi (lt ndwi (- 1)) (- 1)) (gt ndwi 1) 1
          in Inr (addBands img ''NDWI'' ndwi'))))"

section \<open>Temporal statistics over a collection (mean, max)\<close>

text \<open>\<open>collection.select('NDVI')\<close>: the named band of every image, in order; an image
  without the band is an error.\<close>

fun select_all :: "image list \<Rightarrow> string \<Rightarrow> error + raster list" where
  "select_all [] b = Inr []"
| "select_all (img # imgs) b =
     (case select img b of None \<Rightarrow> Inl (BandNotFound b)
      | Some r \<Rightarrow> (case select_all imgs b of Inl e \<Rightarrow> Inl e | Inr rs \<Rightarrow> Inr (r # rs)))"

text \<open>\<open>collection.map(f)\<close>; the first error of \<open>f\<close> is the error of the whole.\<close>

fun map_images :: "(image \<Rightarrow> error + image) \<Rightarrow> image list \<Rightarrow> error + image list" where
  "map_images f [] = Inr []"
| "map_images f (img # imgs) =
     (case f img of Inl e \<Rightarrow> Inl e
      | Inr img' \<Rightarrow> (case map_images f imgs of Inl e \<Rightarrow> Inl e | Inr is \<Rightarrow> Inr (img' # is)))"

text \<open>The reducers \<open>mean()\<close> and \<open>max()\<close> of a collection work pixel by pixel on the
  values of the images that have a value there; a pixel without any value stays
  without one.\<close>

fun valid_values :: "real option list \<Rightarrow> real list" where
  "valid_values [] = []"
| "valid_values (None # vs) = valid_values vs"
| "valid_values (Some x # vs) = x # valid_values vs"

definition mean_pixel :: "real option list \<Rightarrow> real option" where
  "mean_pixel vs =
     (let xs = valid_values vs
      in if xs = [] then None else Some (sum_list xs / real (length xs)))"

definition max_pixel :: "real option list \<Rightarrow> real option" where
  "max_pixel vs =
     (case valid_values vs of [] \<Rightarrow> None | x # xs \<Rightarrow> Some (fold max xs x))"

definition ee_mean :: "raster list \<Rightarrow> raster" where
  "ee_mean rs = (\<lambda>p. mean_pixel (map (\<lambda>r. r p) rs))"

definition ee_max :: "raster list \<Rightarrow> raster" where
  "ee_max rs = (\<lambda>p. max_pixel (map (\<lambda>r. r p) rs))"

text \<open>\<open>collection.select('NDVI')[statType]()\<close>: the method named by the string.  Only
  the two methods the scripts document are modelled.  The composite of an empty
  collection is an image without bands.\<close>

definition call_stat :: "string \<Rightarrow> raster list \<Rightarrow> (string \<times> raster) list option" where
  "call_stat st rs =
     (if st = ''mean'' then Some (if rs = [] then [] else [(''NDVI'', ee_mean rs)])
      else if st = ''max'' then Some (if rs = [] then [] else [(''NDVI'', ee_max rs)])
      else None)"

section \<open>The satellite table and its lookup\<close>

record satellite =
  name :: string
  startYear :: nat
  endYear :: "nat option"

definition SATELLITES :: "(string \<times> satellite) list" where
  "SATELLITES =
     [(''L4'', \<lparr>name = ''LANDSAT/LT04/C02/T1_L2'', startYear = 1982, endYear = Some 1993\<rparr>),
      (''L5'', \<lparr>name = ''LANDSAT/LT05/C02/T1_L2'', startYear = 1984, endYear = Some 2012\<rparr>),
      (''L7'', \<lparr>name = ''LANDSAT/LE07/C02/T1_L2'', startYear = 1999, endYear = Some 2022\<rparr>),
      (''L8'', \<lparr>name = ''LANDSAT/LC08/C02/T1_L2'', startYear = 2013, endYear = None\<rparr>),
      (''L9'', \<lparr>name = ''LANDSAT/LC09/C02/T1_L2'', startYear = 2021, endYear = None\<rparr>)]"

text \<open>\<open>SATELLITES\<close> is an object literal, so \<open>SATELLITES[id]\<close> also finds the members
  that every object inherits from \<open>Object.prototype\<close>.  They are objects (truthy); the
  table gives the \<open>name\<close> property of each, \<open>None\<close> where it has none.\<close>

definition Object_prototype :: "(string \<times> string option) list" where
  "Object_prototype =
     [(''constructor'', Some ''Object''),
      (''hasOwnProperty'', Some ''hasOwnProperty''),
      (''isPrototypeOf'', Some ''isPrototypeOf''),
      (''propertyIsEnumerable'', Some ''propertyIsEnumerable''),
      (''toLocaleString'', Some ''toLocaleString''),
      (''toString'', Some ''toString''),
      (''valueOf'', Some ''valueOf''),
      (''__defineGetter__'', Some ''__defineGetter__''),
      (''__defineSetter__'', Some ''__defineSetter__''),
      (''__lookupGetter__'', Some ''__lookupGetter__''),
      (''__lookupSetter__'', Some ''__lookupSetter__''),
      (''__proto__'', None)]"

datatype property = Own satellite | Inherited "string option" | Undefined

definition SATELLITES_get :: "string \<Rightarrow> property" where
  "SATELLITES_get k =
     (case map_of SATELLITES k of Some s \<Rightarrow> Own s
      | None \<Rightarrow> (case map_of Object_prototype k of Some n \<Rightarrow> Inherited n
                 | None \<Rightarrow> Undefined))"

text \<open>\<open>SATELLITES[id].name\<close> of a property that is not undefined.\<close>

definition name_of :: "property \<Rightarrow> string option" where
  "name_of v = (case v of Own s \<Rightarrow> Some (name s) | Inherited n \<Rightarrow> n | Undefined \<Rightarrow> None)"

text \<open>The imagery source is a parameter: for a collection identifier and a date window
  it gives the scenes of that collection that intersect the study area, or \<open>None\<close> when
  it has no such collection.  Building a collection from an undefined identifier is
  refused.\<close>

type_synonym catalog = "string \<Rightarrow> string \<Rightarrow> string \<Rightarrow> image list option"

definition load_collection ::
  "catalog \<Rightarrow> string option \<Rightarrow> string \<Rightarrow> string \<Rightarrow> error + image list" where
  "load_collection cat cid startD endD =
     (case cid of None \<Rightarrow> Inl (CollectionNotFound ''undefined'')
      | Some c \<Rightarrow> (case cat c startD endD of None \<Rightarrow> Inl (CollectionNotFound c)
                   | Some scenes \<Rightarrow> Inr scenes))"

section \<open>NDVI statistics of one period (exports.calculateNDVIStats)\<close>

record params =
  satelliteId :: string
  outputPath :: string

record ndvi_params = params +
  startDate :: string
  endDate :: string
  statType :: string

text \<open>Of the result, the model keeps the number of images, the composite that is
  exported and the name of the export; the region statistics, the path/row list and the
  map layers are left out.\<close>

record ndvi_result =
  imageCount :: nat
  statNDVI :: "(string \<times> raster) list"
  description :: string

definition calculateNDVIStats ::
  "catalog \<Rightarrow> string \<Rightarrow> ndvi_params \<Rightarrow> error + ndvi_result" where
  "calculateNDVIStats cat areaName ps =
     (case SATELLITES_get (satelliteId ps) of
        Undefined \<Rightarrow> Inl (UnknownSatellite (satelliteId ps))
      | entry \<Rightarrow>
        (if statType ps \<notin> set [''mean'', ''max''] then Inl (UnsupportedStatistic (statType ps))
         else
          (case load_collection cat (name_of entry) (startDate ps) (endDate ps) of
             Inl e \<Rightarrow> Inl e
           | Inr collection \<Rightarrow>
             (case map_images (\<lambda>img. computeNDVI (maskClouds img) (satelliteId ps)) collection of
                Inl e \<Rightarrow> Inl e
              | Inr processedCollection \<Rightarrow>
                (case select_all processedCollection ''NDVI'' of
                   Inl e \<Rightarrow> Inl e
                 | Inr ndvis \<Rightarrow>
                   (case call_stat (statType ps) ndvis of
                      None \<Rightarrow> Inl (UnsupportedStatistic (statType ps))
                    | Some composite \<Rightarrow>
                        Inr \<lparr>imageCount = length processedCollection,
                             statNDVI = composite,
                             description = areaName @ ''_NDVI_'' @ statType ps @ ''_''
                               @ startDate ps @ ''_'' @ endDate ps\<rparr>))))))"

section \<open>Fractional vegetation cover (calculateFVC and exports.calculateFVC)\<close>

text \<open>\<open>ee.Image.constant(c)\<close>: the value \<open>c\<close> at every pixel.\<close>

definition Image_constant :: "real \<Rightarrow> raster" where
  "Image_constant c = (\<lambda>p. Some c)"

text \<open>An expression of three variables.\<close>

definition expression3 ::
  "(real \<Rightarrow> real \<Rightarrow> real \<Rightarrow> real) \<Rightarrow> raster \<Rightarrow> raster \<Rightarrow> raster \<Rightarrow> raster" where
  "expression3 f a b c =
     (\<lambda>p. case a p of None \<Rightarrow> None
          | Some x \<Rightarrow> (case b p of None \<Rightarrow> None
                       | Some y \<Rightarrow> (case c p of None \<Rightarrow> None | Some z \<Rightarrow> Some (f x y z))))"

text \<open>The function has no check on its two thresholds.  Its result band is renamed
  \<open>FVC\<close>; the model returns the values of that band.\<close>

definition calculateFVC :: "raster \<Rightarrow> real \<Rightarrow> real \<Rightarrow> raster" where
  "calculateFVC ndviImage ndvi_soil ndvi_veg =
     (let soilImage = Image_constant ndvi_soil;
          vegImage = Image_constant ndvi_veg;
          fvc = expression3 (\<lambda>NDVI NDVI_soil NDVI_veg.
                   ee_divide (NDVI - NDVI_soil) (NDVI_veg - NDVI_soil))
                 ndviImage soilImage vegImage
      in where_const (where_const fvc (lt fvc 0) 0) (gt fvc 1) 1)"

text \<open>\<open>value || fallback\<close> on an optional number: the fallback replaces an absent value
  and also the number 0, which is falsy.\<close>

definition or_default :: "real option \<Rightarrow> real \<Rightarrow> real" where
  "or_default v d = (case v of None \<Rightarrow> d | Some x \<Rightarrow> (if x = 0 then d else x))"

text \<open>The same on an optional string (the empty string is falsy) and on an optional
  truth value.\<close>

definition or_default_string :: "string option \<Rightarrow> string \<Rightarrow> string" where
  "or_default_string v d = (case v of None \<Rightarrow> d | Some s \<Rightarrow> (if s = [] then d else s))"

definition or_false :: "bool option \<Rightarrow> bool" where
  "or_false v = (case v of None \<Rightarrow> False | Some b \<Rightarrow> b)"

text \<open>\<open>s.toUpperCase()\<close> on the letters a to z.\<close>

definition toUpperCase :: "string \<Rightarrow> string" where
  "toUpperCase s =
     map (\<lambda>c. let n = (of_char c :: nat) in if 97 \<le> n \<and> n \<le> 122 then char_of (n - 32) else c) s"

record fvc_params = params +
  timePeriods :: "(string \<times> string) list"
  ndviType :: "string option"
  autoThreshold :: "bool option"
  ndvi_soil :: "real option"
  ndvi_veg :: "real option"

text \<open>What a run leaves behind: warnings on the console, export requests (name, folder,
  bands of the image), the map layer of the study area (its label rendered in English)
  and the map layers of images.  The informational console lines are left out.\<close>

datatype event =
    WarnNoImages string string
  | ExportToDrive string string "(string \<times> raster) list"
  | AddGeometryLayer string
  | AddLayer string "(string \<times> raster) list"

text \<open>A run ends with the events it produced and, when an exception escaped, that
  exception.\<close>

type_synonym outcome = "event list \<times> error option"

text \<open>\<open>periods.forEach(f)\<close>: an exception thrown by \<open>f\<close> ends the loop; the periods
  after it are not visited.\<close>

fun forEach :: "('a \<Rightarrow> outcome) \<Rightarrow> 'a list \<Rightarrow> outcome" where
  "forEach f [] = ([], None)"
| "forEach f (x # xs) =
     (case f x of
        (ev, Some e) \<Rightarrow> (ev, Some e)
      | (ev, None) \<Rightarrow> (case forEach f xs of (ev', r) \<Rightarrow> (ev @ ev', r)))"

text \<open>The body of the loop over the periods.  With automatic thresholds the call of the
  estimator names a variable \<open>ndviMax\<close> that is declared nowhere, so evaluating the
  arguments of the call throws before the estimator runs; the fallback to the fixed
  thresholds that follows the call in the script is never reached.\<close>

definition fvc_period ::
  "catalog \<Rightarrow> string \<Rightarrow> property \<Rightarrow> string \<Rightarrow> string \<Rightarrow> bool \<Rightarrow> real \<Rightarrow> real \<Rightarrow> string
     \<Rightarrow> string \<times> string \<Rightarrow> outcome" where
  "fvc_period cat areaName entry sat ntype auto soil veg folder period =
     (case load_collection cat (name_of entry) (fst period) (snd period) of
        Inl e \<Rightarrow> ([], Some e)
      | Inr scenes \<Rightarrow>
        (case map_images (\<lambda>img. computeNDVI (maskClouds img) sat) scenes of
           Inl e \<Rightarrow> ([], Some e)
         | Inr collection \<Rightarrow>
           (if length collection = 0 then ([WarnNoImages (fst period) (snd period)], None)
            else
             (case select_all collection ''NDVI'' of
                Inl e \<Rightarrow> ([], Some e)
              | Inr ndvis \<Rightarrow>
                (let ndviImage = (if ntype = ''max'' then ee_max ndvis else ee_mean ndvis)
                 in if auto then ([], Some (ReferenceError ''ndviMax''))
                    else
                     (let fvc = calculateFVC ndviImage soil veg;
                          exportDescription = areaName @ ''_FVC_'' @ toUpperCase ntype @ ''_''
                            @ fst period @ ''_'' @ snd period
                      in ([ExportToDrive exportDescription folder [(''FVC'', fvc)],
                           AddGeometryLayer ''study area'',
                           AddLayer (''FVC_'' @ toUpperCase ntype @ ''_'' @ fst period @ ''_''
                             @ snd period) [(''FVC'', fvc)]], None)))))))"

definition exports_calculateFVC :: "catalog \<Rightarrow> string \<Rightarrow> fvc_params \<Rightarrow> outcome" where
  "exports_calculateFVC cat areaName ps =
     (case SATELLITES_get (satelliteId ps) of
        Undefined \<Rightarrow> ([], Some (UnknownSatellite (satelliteId ps)))
      | entry \<Rightarrow>
        (let ntype = or_default_string (ndviType ps) ''max'' in
         if ntype \<noteq> ''max'' \<and> ntype \<noteq> ''mean'' then ([], Some (UnsupportedNdviType ntype))
         else
          (let auto = or_false (autoThreshold ps);
               soil = or_default (ndvi_soil ps) 0.2;
               veg = or_default (ndvi_veg ps) 0.86
           in forEach (fvc_period cat areaName entry (satelliteId ps) ntype auto soil veg
                         (outputPath ps))
                (timePeriods ps))))"

section \<open>Batch NDVI over several periods (processNDVI and the main loop)\<close>

text \<open>The configuration of the batch script: the enabled satellites, in the order of
  the keys of the object, and the statistic.\<close>

definition satelliteConfig :: "(string \<times> bool) list" where
  "satelliteConfig =
     [(''L9'', True), (''L8'', True), (''L7'', False), (''L5'', True), (''L4'', True)]"

definition batch_statType :: string where
  "batch_statType = ''mean''"

definition enabledSatellites :: "string list" where
  "enabledSatellites = map fst (filter snd satelliteConfig)"

text \<open>\<open>text.match(pattern)\<close> for a pattern without operators: does the text contain
  it?\<close>

fun contains :: "string \<Rightarrow> string \<Rightarrow> bool" where
  "contains pat [] = (pat = [])"
| "contains pat (c # cs) = (take (length pat) (c # cs) = pat \<or> contains pat cs)"

text \<open>The batch script chooses the bands from the spacecraft identifier of the image:
  the pattern \<open>LANDSAT_[89]\<close>.\<close>

definition computeNDVI_batch :: "image \<Rightarrow> error + image" where
  "computeNDVI_batch img =
     (let spacecraftId = SPACECRAFT_ID img;
          isNewSatellite = (contains ''LANDSAT_8'' spacecraftId \<or> contains ''LANDSAT_9'' spacecraftId);
          nirName = (if isNewSatellite then ''SR_B5'' else ''SR_B4'');
          redName = (if isNewSatellite then ''SR_B4'' else ''SR_B3'')
      in case select img nirName of None \<Rightarrow> Inl (BandNotFound nirName)
         | Some nirBand \<Rightarrow>
         (case select img redName of None \<Rightarrow> Inl (BandNotFound redName)
          | Some redBand \<Rightarrow>
            (let ndvi = expression (\<lambda>n r. ee_divide (n - r) (n + r))
                          (add (multiply nirBand 0.0000275) (- 0.2))
                          (add (multiply redBand 0.0000275) (- 0.2));
                 ndvi' = where_const (where_const ndvi (lt ndvi (- 1)) (- 1)) (gt ndvi 1) 1
             in Inr (addBands img ''NDVI'' ndvi'))))"

text \<open>\<open>text.replace(pattern, replacement)\<close>: the first occurrence only.\<close>

fun replace_first :: "char \<Rightarrow> string \<Rightarrow> string \<Rightarrow> string" where
  "replace_first c r [] = []"
| "replace_first c r (x # xs) = (if x = c then r @ xs else x # replace_first c r xs)"

text \<open>The collections of the enabled satellites, merged in order.\<close>

fun merge_enabled :: "catalog \<Rightarrow> string list \<Rightarrow> string \<Rightarrow> string \<Rightarrow> error + image list" where
  "merge_enabled cat [] startD endD = Inr []"
| "merge_enabled cat (sat # sats) startD endD =
     (case SATELLITES_get sat of
        Undefined \<Rightarrow> Inl (TypeError sat)
      | entry \<Rightarrow>
        (case load_collection cat (name_of entry) startD endD of
           Inl e \<Rightarrow> Inl e
         | Inr collection \<Rightarrow>
           (case merge_enabled cat sats startD endD of
              Inl e \<Rightarrow> Inl e
            | Inr merged \<Rightarrow> Inr (collection @ merged))))"

record batch_result =
  period :: string
  totalImages :: nat
  processedImages :: nat
  filename :: string

text \<open>One period of the batch.  There is no test on the size of the collection: the
  export and the map layer are requested whatever the collection holds.  The label of the
  layer is rendered in English.\<close>

definition processNDVI ::
  "catalog \<Rightarrow> string \<Rightarrow> string \<Rightarrow> string \<Rightarrow> string \<Rightarrow> error + (event list \<times> batch_result)" where
  "processNDVI cat areaName startD endD folder =
     (case merge_enabled cat enabledSatellites startD endD of
        Inl e \<Rightarrow> Inl e
      | Inr mergedCollection \<Rightarrow>
        (case map_images (\<lambda>img. computeNDVI_batch (maskClouds img)) mergedCollection of
           Inl e \<Rightarrow> Inl e
         | Inr processedCollection \<Rightarrow>
           (case select_all processedCollection ''NDVI'' of
              Inl e \<Rightarrow> Inl e
            | Inr ndvis \<Rightarrow>
              (case call_stat batch_statType ndvis of
                 None \<Rightarrow> Inl (TypeError batch_statType)
               | Some composite \<Rightarrow>
                 (let startDateFormatted =
                        replace_first CHR ''-'' [] (replace_first CHR ''-'' [] startD);
                      endDateFormatted =
                        replace_first CHR ''-'' [] (replace_first CHR ''-'' [] endD);
                      fname = areaName @ ''_NDVI_'' @ batch_statType @ ''_''
                        @ startDateFormatted @ ''_'' @ endDateFormatted;
                      displayName = startD @ '' to '' @ endD @ '' NDVI ''
                        @ (if batch_statType = ''mean'' then ''mean'' else ''max'')
                  in Inr ([ExportToDrive fname folder composite, AddLayer displayName composite],
                          \<lparr>period = startD @ ''_'' @ endD,
                           totalImages = length mergedCollection,
                           processedImages = length processedCollection,
                           filename = fname\<rparr>))))))"

text \<open>The main flow: the layer of the study area, then the loop over the periods.\<close>

definition batch_main :: "catalog \<Rightarrow> string \<Rightarrow> (string \<times> string) list \<Rightarrow> outcome" where
  "batch_main cat areaName periods =
     (case forEach (\<lambda>p. case processNDVI cat areaName (fst p) (snd p) ''NDVI_Results'' of
                           Inl e \<Rightarrow> ([], Some e)
                         | Inr (ev, result) \<Rightarrow> (ev, None))
             periods of
        (ev, r) \<Rightarrow> (AddGeometryLayer ''study area'' # ev, r))"

section \<open>The stated formulas, for comparison with the code\<close>

text \<open>The index of one pixel in closed form: both digital numbers rescaled, the
  normalized difference taken with the platform's division, the quotient clamped into
  the interval from -1 to 1 afterwards; no value when one of the two bands has none.\<close>

definition rescale :: "real \<Rightarrow> real" where
  "rescale x = x * 0.0000275 + (- 0.2)"

definition clamp_index :: "real \<Rightarrow> real" where
  "clamp_index q = max (- 1) (min 1 q)"

definition index_value :: "real \<Rightarrow> real \<Rightarrow> real" where
  "index_value x y = clamp_index (ee_divide (rescale x - rescale y) (rescale x + rescale y))"

definition index_pixel :: "real option \<Rightarrow> real option \<Rightarrow> real option" where
  "index_pixel u v =
     (case u of None \<Rightarrow> None
      | Some x \<Rightarrow> (case v of None \<Rightarrow> None | Some y \<Rightarrow> Some (index_value x y)))"

text \<open>A band of integer digital numbers, as the scenes of the Landsat collections hold
  them.\<close>

definition digital_numbers :: "(pixel \<Rightarrow> int option) \<Rightarrow> raster" where
  "digital_numbers d = (\<lambda>p. map_option of_int (d p))"

text \<open>The index of one pixel as claim C1 words it: the two values rescaled, no value when
  the rescaled sum is 0, otherwise the quotient of difference and sum, clamped after the
  division.\<close>

definition guarded_index_pixel :: "real option \<Rightarrow> real option \<Rightarrow> real option" where
  "guarded_index_pixel u v =
     (case u of None \<Rightarrow> None
      | Some x \<Rightarrow>
        (case v of None \<Rightarrow> None
         | Some y \<Rightarrow>
           (if rescale x + rescale y = 0 then None
            else Some (clamp_index ((rescale x - rescale y) / (rescale x + rescale y))))))"

text \<open>The valid contributions to a pixel, as claim C6 words them: the values of those
  rasters of the collection that hold a value at the pixel, with their multiplicity and
  without an order.\<close>

definition valid_contributions :: "raster list \<Rightarrow> pixel \<Rightarrow> real multiset" where
  "valid_contributions rs p =
     image_mset the (filter_mset (\<lambda>v. v \<noteq> None) (image_mset (\<lambda>r. r p) (mset rs)))"

text \<open>The two statistics as claim C6 words them: the arithmetic mean and the maximum of
  the valid contributions, and no value for a pixel without any.\<close>

definition mean_of_valid :: "raster list \<Rightarrow> raster" where
  "mean_of_valid rs =
     (\<lambda>p. if valid_contributions rs p = {#} then None
          else Some (sum_mset (valid_contributions rs p)
                       / real (size (valid_contributions rs p))))"

definition max_of_valid :: "raster list \<Rightarrow> raster" where
  "max_of_valid rs =
     (\<lambda>p. if valid_contributions rs p = {#} then None
          else Some (Max (set_mset (valid_contributions rs p))))"

section \<open>Observations and example inputs used in the statements\<close>

text \<open>The value of a band at a pixel of a computed image: \<open>None\<close> when the computation
  failed or the band is absent, \<open>Some None\<close> for a pixel without value.\<close>

definition band_value :: "error + image \<Rightarrow> string \<Rightarrow> pixel \<Rightarrow> real option option" where
  "band_value res b p =
     (case res of Inl e \<Rightarrow> None | Inr img \<Rightarrow> map_option (\<lambda>r. r p) (select img b))"

text \<open>What an event is, without the pixel values: its kind, its name and the names of
  the bands it carries.\<close>

definition summary :: "event \<Rightarrow> string \<times> string \<times> string list" where
  "summary ev =
     (case ev of
        WarnNoImages s e \<Rightarrow> (''warning'', s @ ''_'' @ e, [])
      | ExportToDrive d f bs \<Rightarrow> (''export'', d, map fst bs)
      | AddGeometryLayer l \<Rightarrow> (''geometry'', l, [])
      | AddLayer l bs \<Rightarrow> (''layer'', l, map fst bs))"

text \<open>The value an export request carries for a band at a pixel.\<close>

definition exported_value :: "event \<Rightarrow> string \<Rightarrow> pixel \<Rightarrow> real option option" where
  "exported_value ev b p =
     (case ev of ExportToDrive d f bs \<Rightarrow> map_option (\<lambda>r. r p) (map_of bs b) | _ \<Rightarrow> None)"

text \<open>The value of the composite of a statistics run at a pixel: \<open>None\<close> when the run
  failed or the composite has no NDVI band, \<open>Some None\<close> for a pixel without value.\<close>

definition stat_value :: "error + ndvi_result \<Rightarrow> pixel \<Rightarrow> real option option" where
  "stat_value res p =
     (case res of Inl e \<Rightarrow> None
      | Inr r \<Rightarrow> map_option (\<lambda>c. c p) (map_of (statNDVI r) ''NDVI''))"

definition QA_constant :: "16 word \<Rightarrow> qa_raster" where
  "QA_constant q = (\<lambda>p. Some q)"

definition no_value :: raster where
  "no_value = (\<lambda>p. None)"

text \<open>A scene of Landsat 8 with the same digital number at every pixel of a band:
  green, red, near infrared, short-wave infrared, and the quality value.\<close>

definition scene_L8 :: "real \<Rightarrow> real \<Rightarrow> real \<Rightarrow> real \<Rightarrow> 16 word \<Rightarrow> image" where
  "scene_L8 g r n s q =
     \<lparr>bands = [(''SR_B3'', Image_constant g), (''SR_B4'', Image_constant r),
               (''SR_B5'', Image_constant n), (''SR_B7'', Image_constant s)],
      QA_PIXEL = QA_constant q,
      SPACECRAFT_ID = ''LANDSAT_8''\<rparr>"

text \<open>An imagery source that knows the five Landsat collections and holds one scene, of
  Landsat 8, in the window that starts on 2021-01-01; every other window is empty.\<close>

definition example_catalog :: catalog where
  "example_catalog cid startD endD =
     (if cid \<in> set (map (\<lambda>e. name (snd e)) SATELLITES)
      then Some (if cid = ''LANDSAT/LC08/C02/T1_L2'' \<and> startD = ''2021-01-01''
                 then [scene_L8 9000 10000 20000 12000 1] else [])
      else None)"

text \<open>Parameters of the cover script for satellite L8 and the maximum composite; the
  periods, the threshold mode and the two thresholds vary.\<close>

definition example_params ::
  "(string \<times> string) list \<Rightarrow> bool option \<Rightarrow> real option \<Rightarrow> real option \<Rightarrow> fvc_params" where
  "example_params periods auto soil veg =
     \<lparr>satelliteId = ''L8'', outputPath = ''FVC_Results'', timePeriods = periods,
      ndviType = Some ''max'', autoThreshold = auto, ndvi_soil = soil, ndvi_veg = veg\<rparr>"

text \<open>Parameters of the statistics script for one satellite identifier.\<close>

definition example_ndvi_params :: "string \<Rightarrow> ndvi_params" where
  "example_ndvi_params sat =
     \<lparr>satelliteId = sat, outputPath = ''NDVI_Results'', startDate = ''2021-01-01'',
      endDate = ''2021-12-31'', statType = ''mean''\<rparr>"

text \<open>An imagery source that holds the given scenes in the collection of Landsat 8, in
  every window, and nothing in the other four collections.\<close>

definition stack_catalog :: "image list \<Rightarrow> catalog" where
  "stack_catalog scenes cid startD endD =
     (if cid \<in> set (map (\<lambda>e. name (snd e)) SATELLITES)
      then Some (if cid = ''LANDSAT/LC08/C02/T1_L2'' then scenes else [])
      else None)"

text \<open>Three scenes of Landsat 8: a clear one, one flagged as cloud and cloud shadow at
  every pixel, and a clear one whose two bands are equal.\<close>

definition example_stack :: "image list" where
  "example_stack =
     [scene_L8 9000 10000 20000 12000 1,
      scene_L8 9000 10000 20000 12000 24,
      scene_L8 9000 20000 20000 12000 1]"

text \<open>Parameters of the statistics script for satellite L8 and one statistic.\<close>

definition example_stat_params :: "string \<Rightarrow> ndvi_params" where
  "example_stat_params st =
     \<lparr>satelliteId = ''L8'', outputPath = ''NDVI_Results'', startDate = ''2021-01-01'',
      endDate = ''2021-12-31'', statType = st\<rparr>"

section \<open>Cloud masking: the bits that remove a pixel\<close>

lemma qa_bit: "(q AND push_bit n 1 = 0) = (\<not> bit q n)" for q :: "16 word"
  by (simp add: and_exp_eq_0_iff_not_bit)

lemma mask_pixel:
  "QA_PIXEL img p = Some q \<Longrightarrow>
   ee_not (ee_or (bitwiseAnd (QA_PIXEL img) (push_bit 3 1)) (bitwiseAnd (QA_PIXEL img) (push_bit 4 1))) p
     = Some (if bit q 3 \<or> bit q 4 then 0 else 1)"
  by (simp add: ee_not_def ee_or_def bitwiseAnd_def qa_bit del: push_bit_of_1)

text \<open>
  Claim C8.  At every pixel where the quality band of a scene has a value, the cloud mask
  removes the pixel exactly when bit 3 or bit 4 of that value is set: every band of the
  scene, the quality band included, then has no value there, and keeps its value
  otherwise.  The scene itself stays, with all its bands under their names.
\<close>

theorem maskClouds_masks_cloud_bits:
  assumes "QA_PIXEL img p = Some q"
  shows "map fst (bands (maskClouds img)) = map fst (bands img) \<and>
         (\<forall>i<length (bands img).
            snd (bands (maskClouds img) ! i) p =
              (if bit q 3 \<or> bit q 4 then None else snd (bands img ! i) p)) \<and>
         QA_PIXEL (maskClouds img) p = (if bit q 3 \<or> bit q 4 then None else Some q) \<and>
         SPACECRAFT_ID (maskClouds img) = SPACECRAFT_ID img"
proof -
  let ?m = "ee_not (ee_or (bitwiseAnd (QA_PIXEL img) (push_bit 3 1))
                          (bitwiseAnd (QA_PIXEL img) (push_bit 4 1)))"
  have m: "?m p = Some (if bit q 3 \<or> bit q 4 then 0 else 1)"
    by (rule mask_pixel [OF assms])
  have mb: "mask_band ?m r p = (if bit q 3 \<or> bit q 4 then None else r p)"
    for r :: "pixel \<Rightarrow> 'b option"
    using m by (simp add: mask_band_def del: push_bit_of_1)
  have mc: "maskClouds img = updateMask img ?m"
    by (simp add: maskClouds_def Let_def del: push_bit_of_1)
  have names: "map fst (bands (updateMask img ?m)) = map fst (bands img)"
    by (simp add: updateMask_def case_prod_unfold comp_def del: push_bit_of_1)
  have vals: "snd (bands (updateMask img ?m) ! i) p =
                (if bit q 3 \<or> bit q 4 then None else snd (bands img ! i) p)"
    if "i < length (bands img)" for i
    using that
    by (simp add: updateMask_def case_prod_unfold mb del: push_bit_of_1)
  have qa: "QA_PIXEL (updateMask img ?m) p = (if bit q 3 \<or> bit q 4 then None else Some q)"
    using assms
    by (simp add: updateMask_def mb del: push_bit_of_1)
  have sc: "SPACECRAFT_ID (updateMask img ?m) = SPACECRAFT_ID img"
    by (simp add: updateMask_def)
  show ?thesis
    unfolding mc using names vals qa sc by blast
qed

theorem maskClouds_masks_cloud_bits_witness:
  "snd (bands (maskClouds (scene_L8 9000 10000 20000 12000 24)) ! 2) (0, 0) = None \<and>
   QA_PIXEL (maskClouds (scene_L8 9000 10000 20000 12000 24)) (0, 0) = None \<and>
   snd (bands (maskClouds (scene_L8 9000 10000 20000 12000 1)) ! 2) (0, 0) = Some 20000 \<and>
   map fst (bands (maskClouds (scene_L8 9000 10000 20000 12000 24)))
     = [''SR_B3'', ''SR_B4'', ''SR_B5'', ''SR_B7'']"
  using maskClouds_masks_cloud_bits [of "scene_L8 9000 10000 20000 12000 24" "(0, 0)" 24]
        maskClouds_masks_cloud_bits [of "scene_L8 9000 10000 20000 12000 1" "(0, 0)" 1]
  by (simp add: scene_L8_def QA_constant_def Image_constant_def)

section \<open>Index computation: rescale, divide, clamp\<close>

lemma clamp_where:
  "where_const (where_const r (lt r lo) lo) (gt r hi) hi p =
     map_option (\<lambda>x. if hi < x then hi else if x < lo then lo else x) (r p)"
  by (cases "r p") (auto simp: where_const_def lt_def gt_def)

lemma index_pipeline:
  "where_const
     (where_const
        (expression (\<lambda>n r. ee_divide (n - r) (n + r))
           (add (multiply a 0.0000275) (- 0.2)) (add (multiply b 0.0000275) (- 0.2)))
        (lt (expression (\<lambda>n r. ee_divide (n - r) (n + r))
           (add (multiply a 0.0000275) (- 0.2)) (add (multiply b 0.0000275) (- 0.2))) (- 1))
        (- 1))
     (gt (expression (\<lambda>n r. ee_divide (n - r) (n + r))
           (add (multiply a 0.0000275) (- 0.2)) (add (multiply b 0.0000275) (- 0.2))) 1)
     1
   = (\<lambda>p. index_pixel (a p) (b p))"
proof
  fix p
  show "where_const
     (where_const
        (expression (\<lambda>n r. ee_divide (n - r) (n + r))
           (add (multiply a 0.0000275) (- 0.2)) (add (multiply b 0.0000275) (- 0.2)))
        (lt (expression (\<lambda>n r. ee_divide (n - r) (n + r))
           (add (multiply a 0.0000275) (- 0.2)) (add (multiply b 0.0000275) (- 0.2))) (- 1))
        (- 1))
     (gt (expression (\<lambda>n r. ee_divide (n - r) (n + r))
           (add (multiply a 0.0000275) (- 0.2)) (add (multiply b 0.0000275) (- 0.2))) 1)
     1 p
   = index_pixel (a p) (b p)"
    unfolding clamp_where
    by (cases "a p"; cases "b p")
       (simp_all add: expression_def add_def multiply_def index_pixel_def index_value_def
          clamp_index_def rescale_def max_def min_def)
qed

lemma computeNDVI_eq:
  "select img (nir (getBandNames sat)) = Some a \<Longrightarrow>
   select img (red (getBandNames sat)) = Some b \<Longrightarrow>
   computeNDVI img sat = Inr (addBands img ''NDVI'' (\<lambda>p. index_pixel (a p) (b p)))"
  unfolding computeNDVI_def Let_def index_pipeline by simp

lemma computeNDBI_eq:
  "select img (swir (getBandNames_ndbi sat)) = Some a \<Longrightarrow>
   select img (ndbi_nir (getBandNames_ndbi sat)) = Some b \<Longrightarrow>
   computeNDBI img sat = Inr (addBands img ''NDBI'' (\<lambda>p. index_pixel (a p) (b p)))"
  unfolding computeNDBI_def Let_def index_pipeline by simp

lemma computeNDWI_eq:
  "select img (green (getBandNames_ndwi sat)) = Some a \<Longrightarrow>
   select img (ndwi_nir (getBandNames_ndwi sat)) = Some b \<Longrightarrow>
   computeNDWI img sat = Inr (addBands img ''NDWI'' (\<lambda>p. index_pixel (a p) (b p)))"
  unfolding computeNDWI_def Let_def index_pipeline by simp

lemma index_value_range: "- 1 \<le> index_value x y \<and> index_value x y \<le> 1"
  by (simp add: index_value_def clamp_index_def)

lemma rescale_sum_int: "rescale (of_int m) + rescale (of_int n) \<noteq> 0"
proof
  assume "rescale (of_int m) + rescale (of_int n) = 0"
  then have "(of_int (m + n) :: real) * 11 = 160000"
    by (simp add: rescale_def algebra_simps)
  then have "(of_int ((m + n) * 11) :: real) = of_int 160000"
    by simp
  then have "(m + n) * 11 = 160000"
    by (simp only: of_int_eq_iff)
  then have "(11::int) dvd 160000"
    by (metis dvd_triv_right)
  then show False by simp
qed

lemma index_pixel_None: "(index_pixel u v = None) = (u = None \<or> v = None)"
  by (cases u; cases v) (simp_all add: index_pixel_def)

lemma guarded_on_digital_numbers:
  "index_pixel (digital_numbers da p) (digital_numbers db p)
     = guarded_index_pixel (digital_numbers da p) (digital_numbers db p)"
proof (cases "da p")
  case None
  then show ?thesis
    by (simp add: digital_numbers_def index_pixel_def guarded_index_pixel_def)
next
  case (Some m)
  show ?thesis
  proof (cases "db p")
    case None
    with Some show ?thesis
      by (simp add: digital_numbers_def index_pixel_def guarded_index_pixel_def)
  next
    case (Some n)
    have "rescale (of_int m) + rescale (of_int n) \<noteq> 0"
      by (rule rescale_sum_int)
    with \<open>da p = Some m\<close> Some show ?thesis
      by (simp add: digital_numbers_def index_pixel_def guarded_index_pixel_def index_value_def
            ee_divide_def)
  qed
qed

lemma guarded_range: "guarded_index_pixel u v = Some q \<Longrightarrow> - 1 \<le> q \<and> q \<le> 1"
  by (cases u; cases v) (auto simp: guarded_index_pixel_def clamp_index_def split: if_splits)

lemma guarded_zero_sum:
  "rescale x + rescale y = 0 \<Longrightarrow> guarded_index_pixel (Some x) (Some y) = None"
  by (simp add: guarded_index_pixel_def)

lemma guarded_None:
  "(guarded_index_pixel u v = None) =
     (u = None \<or> v = None \<or> rescale (the u) + rescale (the v) = 0)"
  by (cases u; cases v) (simp_all add: guarded_index_pixel_def)

text \<open>
  Claim C1.  On a scene whose two selected bands hold integer digital numbers, each of
  computeNDVI, computeNDBI and computeNDWI returns the image with one band added whose
  value at every pixel is the index as the claim words it: both numbers rescaled (times
  0.0000275, plus -0.2), no value when the rescaled sum is 0 or a band has no value there,
  otherwise (A - B) / (A + B) clamped into the interval from -1 to 1 after the division
  (1.5 becomes 1).  Every value produced lies between -1 and 1.
\<close>

theorem index_rescale_guard_clamp:
  "(select img (nir (getBandNames sat)) = Some (digital_numbers da) \<longrightarrow>
    select img (red (getBandNames sat)) = Some (digital_numbers db) \<longrightarrow>
      computeNDVI img sat = Inr (addBands img ''NDVI''
        (\<lambda>p. guarded_index_pixel (digital_numbers da p) (digital_numbers db p)))) \<and>
   (select img (swir (getBandNames_ndbi sat)) = Some (digital_numbers dc) \<longrightarrow>
    select img (ndbi_nir (getBandNames_ndbi sat)) = Some (digital_numbers dd) \<longrightarrow>
      computeNDBI img sat = Inr (addBands img ''NDBI''
        (\<lambda>p. guarded_index_pixel (digital_numbers dc p) (digital_numbers dd p)))) \<and>
   (select img (green (getBandNames_ndwi sat)) = Some (digital_numbers de) \<longrightarrow>
    select img (ndwi_nir (getBandNames_ndwi sat)) = Some (digital_numbers df) \<longrightarrow>
      computeNDWI img sat = Inr (addBands img ''NDWI''
        (\<lambda>p. guarded_index_pixel (digital_numbers de p) (digital_numbers df p)))) \<and>
   (guarded_index_pixel u v = None) =
     (u = None \<or> v = None \<or> rescale (the u) + rescale (the v) = 0) \<and>
   (guarded_index_pixel u v = Some q \<longrightarrow> - 1 \<le> q \<and> q \<le> 1) \<and>
   clamp_index 1.5 = 1 \<and> clamp_index (- 1.5) = - 1 \<and>
   (- 1 \<le> q \<and> q \<le> 1 \<longrightarrow> clamp_index q = q)"
proof -
  have 1: "computeNDVI img sat = Inr (addBands img ''NDVI''
        (\<lambda>p. guarded_index_pixel (digital_numbers da p) (digital_numbers db p)))"
    if "select img (nir (getBandNames sat)) = Some (digital_numbers da)"
       "select img (red (getBandNames sat)) = Some (digital_numbers db)"
    using computeNDVI_eq [OF that] by (simp only: guarded_on_digital_numbers)
  have 2: "computeNDBI img sat = Inr (addBands img ''NDBI''
        (\<lambda>p. guarded_index_pixel (digital_numbers dc p) (digital_numbers dd p)))"
    if "select img (swir (getBandNames_ndbi sat)) = Some (digital_numbers dc)"
       "select img (ndbi_nir (getBandNames_ndbi sat)) = Some (digital_numbers dd)"
    using computeNDBI_eq [OF that] by (simp only: guarded_on_digital_numbers)
  have 3: "computeNDWI img sat = Inr (addBands img ''NDWI''
        (\<lambda>p. guarded_index_pixel (digital_numbers de p) (digital_numbers df p)))"
    if "select img (green (getBandNames_ndwi sat)) = Some (digital_numbers de)"
       "select img (ndwi_nir (getBandNames_ndwi sat)) = Some (digital_numbers df)"
    using computeNDWI_eq [OF that] by (simp only: guarded_on_digital_numbers)
  have 4: "clamp_index 1.5 = 1" "clamp_index (- 1.5) = - 1"
    "- 1 \<le> q \<and> q \<le> 1 \<longrightarrow> clamp_index q = q"
    by (simp_all add: clamp_index_def)
  show ?thesis
    using 1 2 3 4 guarded_None [of u v] guarded_range [of u v q] by blast
qed

lemma band_value_addBands:
  "b \<notin> fst ` set (bands img) \<Longrightarrow> band_value (Inr (addBands img b r)) b p = Some (r p)"
  by (simp add: band_value_def select_def addBands_def map_add_def map_of_eq_None_iff[THEN iffD2])

text \<open>Masking keeps a band of integer digital numbers one, so the statement also covers
  the scenes as they come out of the cloud mask.\<close>

lemma mask_band_digital:
  "mask_band m (digital_numbers d) = digital_numbers (mask_band m d)"
  by (rule ext) (simp add: mask_band_def digital_numbers_def split: option.splits)

lemma Image_constant_digital:
  "Image_constant (of_int k) = digital_numbers (\<lambda>p. Some k)"
  by (simp add: Image_constant_def digital_numbers_def)

theorem index_rescale_guard_clamp_witness:
  "band_value (computeNDVI (scene_L8 9000 5000 20000 12000 1) ''L8'') ''NDVI'' (0, 0)
     = Some (Some 1) \<and>
   (rescale 20000 - rescale 5000) / (rescale 20000 + rescale 5000) = 33 / 23 \<and>
   band_value (computeNDVI (scene_L8 9000 10000 20000 12000 1) ''L8'') ''NDVI'' (0, 0)
     = Some (Some (11 / 17)) \<and>
   band_value (computeNDBI (scene_L8 9000 10000 20000 12000 1) ''L8'') ''NDBI'' (0, 0)
     = Some (Some (- 11 / 24)) \<and>
   band_value (computeNDWI (scene_L8 9000 10000 20000 12000 1) ''L8'') ''NDWI'' (0, 0)
     = Some (Some (- 121 / 159))"
proof -
  let ?s = "scene_L8 9000 5000 20000 12000 1"
  let ?t = "scene_L8 9000 10000 20000 12000 1"
  have c: "Image_constant 20000 = digital_numbers (\<lambda>p. Some 20000)"
    "Image_constant 5000 = digital_numbers (\<lambda>p. Some 5000)"
    "Image_constant 10000 = digital_numbers (\<lambda>p. Some 10000)"
    "Image_constant 12000 = digital_numbers (\<lambda>p. Some 12000)"
    "Image_constant 9000 = digital_numbers (\<lambda>p. Some 9000)"
    by (simp_all add: Image_constant_def digital_numbers_def)
  have 0: "computeNDVI ?s ''L8'' = Inr (addBands ?s ''NDVI''
             (\<lambda>p. guarded_index_pixel (digital_numbers (\<lambda>p. Some 20000) p)
                                       (digital_numbers (\<lambda>p. Some 5000) p)))"
    by (rule index_rescale_guard_clamp [THEN conjunct1, rule_format])
       (simp_all add: scene_L8_def select_def getBandNames_def c)
  have 1: "computeNDVI ?t ''L8'' = Inr (addBands ?t ''NDVI''
             (\<lambda>p. guarded_index_pixel (digital_numbers (\<lambda>p. Some 20000) p)
                                       (digital_numbers (\<lambda>p. Some 10000) p)))"
    by (rule index_rescale_guard_clamp [THEN conjunct1, rule_format])
       (simp_all add: scene_L8_def select_def getBandNames_def c)
  have 2: "computeNDBI ?t ''L8'' = Inr (addBands ?t ''NDBI''
             (\<lambda>p. guarded_index_pixel (digital_numbers (\<lambda>p. Some 12000) p)
                                       (digital_numbers (\<lambda>p. Some 20000) p)))"
    by (rule index_rescale_guard_clamp [THEN conjunct2, THEN conjunct1, rule_format])
       (simp_all add: scene_L8_def select_def getBandNames_ndbi_def c)
  have 3: "computeNDWI ?t ''L8'' = Inr (addBands ?t ''NDWI''
             (\<lambda>p. guarded_index_pixel (digital_numbers (\<lambda>p. Some 9000) p)
                                       (digital_numbers (\<lambda>p. Some 20000) p)))"
    by (rule index_rescale_guard_clamp [THEN conjunct2, THEN conjunct2, THEN conjunct1, rule_format])
       (simp_all add: scene_L8_def select_def getBandNames_ndwi_def c)
  have names: "''NDVI'' \<notin> fst ` set (bands ?s)" "''NDVI'' \<notin> fst ` set (bands ?t)"
    "''NDBI'' \<notin> fst ` set (bands ?t)" "''NDWI'' \<notin> fst ` set (bands ?t)"
    by (simp_all add: scene_L8_def)
  show ?thesis
    unfolding 0 1 2 3 using names
    by (simp add: band_value_addBands digital_numbers_def guarded_index_pixel_def
          clamp_index_def rescale_def)
qed

section \<open>Index computation: the bands of the input stay\<close>

lemma addBands_appends:
  "\<exists>r nm. addBands img b r0 = img\<lparr>bands := bands img @ [(nm, r)]\<rparr> \<and>
     (b \<notin> fst ` set (bands img) \<longrightarrow> nm = b)"
  by (auto simp: addBands_def)

text \<open>
  Claim C10.  For every image that holds the two bands the function selects, computeNDVI
  and computeNDBI return the input image with exactly one band appended: the bands of the
  input are all there, in their order, under their names and with their values, and the
  quality band and the properties are unchanged.  The new band is called NDVI (NDBI) when
  the input has no band of that name.
\<close>

theorem index_band_appended:
  "(select img (nir (getBandNames sat)) \<noteq> None \<longrightarrow>
    select img (red (getBandNames sat)) \<noteq> None \<longrightarrow>
      (\<exists>r nm. computeNDVI img sat = Inr (img\<lparr>bands := bands img @ [(nm, r)]\<rparr>) \<and>
         (''NDVI'' \<notin> fst ` set (bands img) \<longrightarrow> nm = ''NDVI''))) \<and>
   (select img (swir (getBandNames_ndbi sat)) \<noteq> None \<longrightarrow>
    select img (ndbi_nir (getBandNames_ndbi sat)) \<noteq> None \<longrightarrow>
      (\<exists>r nm. computeNDBI img sat = Inr (img\<lparr>bands := bands img @ [(nm, r)]\<rparr>) \<and>
         (''NDBI'' \<notin> fst ` set (bands img) \<longrightarrow> nm = ''NDBI'')))"
proof (intro conjI impI)
  assume "select img (nir (getBandNames sat)) \<noteq> None" "select img (red (getBandNames sat)) \<noteq> None"
  then obtain a b where "select img (nir (getBandNames sat)) = Some a"
    "select img (red (getBandNames sat)) = Some b" by auto
  then have "computeNDVI img sat = Inr (addBands img ''NDVI'' (\<lambda>p. index_pixel (a p) (b p)))"
    by (rule computeNDVI_eq)
  then show "\<exists>r nm. computeNDVI img sat = Inr (img\<lparr>bands := bands img @ [(nm, r)]\<rparr>) \<and>
         (''NDVI'' \<notin> fst ` set (bands img) \<longrightarrow> nm = ''NDVI'')"
    using addBands_appends [of img "''NDVI''"] by simp
next
  assume "select img (swir (getBandNames_ndbi sat)) \<noteq> None"
    "select img (ndbi_nir (getBandNames_ndbi sat)) \<noteq> None"
  then obtain a b where "select img (swir (getBandNames_ndbi sat)) = Some a"
    "select img (ndbi_nir (getBandNames_ndbi sat)) = Some b" by auto
  then have "computeNDBI img sat = Inr (addBands img ''NDBI'' (\<lambda>p. index_pixel (a p) (b p)))"
    by (rule computeNDBI_eq)
  then show "\<exists>r nm. computeNDBI img sat = Inr (img\<lparr>bands := bands img @ [(nm, r)]\<rparr>) \<and>
         (''NDBI'' \<notin> fst ` set (bands img) \<longrightarrow> nm = ''NDBI'')"
    using addBands_appends [of img "''NDBI''"] by simp
qed

theorem index_band_appended_witness:
  "(\<exists>r. computeNDVI (scene_L8 9000 10000 20000 12000 1) ''L8'' =
      Inr ((scene_L8 9000 10000 20000 12000 1)
             \<lparr>bands := bands (scene_L8 9000 10000 20000 12000 1) @ [(''NDVI'', r)]\<rparr>)) \<and>
   (\<exists>r. computeNDBI (scene_L8 9000 10000 20000 12000 1) ''L8'' =
      Inr ((scene_L8 9000 10000 20000 12000 1)
             \<lparr>bands := bands (scene_L8 9000 10000 20000 12000 1) @ [(''NDBI'', r)]\<rparr>))"
proof -
  let ?t = "scene_L8 9000 10000 20000 12000 1"
  have sel: "select ?t (nir (getBandNames ''L8'')) \<noteq> None"
    "select ?t (red (getBandNames ''L8'')) \<noteq> None"
    "select ?t (swir (getBandNames_ndbi ''L8'')) \<noteq> None"
    "select ?t (ndbi_nir (getBandNames_ndbi ''L8'')) \<noteq> None"
    by (simp_all add: scene_L8_def select_def getBandNames_def getBandNames_ndbi_def)
  have names: "''NDVI'' \<notin> fst ` set (bands ?t)" "''NDBI'' \<notin> fst ` set (bands ?t)"
    by (simp_all add: scene_L8_def)
  show ?thesis
    using index_band_appended [of ?t "''L8''"] sel names by blast
qed

section \<open>Fractional vegetation cover: the clamped ratio\<close>

lemma fvc_pixel:
  "calculateFVC ndvi s v p =
     map_option (\<lambda>x. max 0 (min 1 (ee_divide (x - s) (v - s)))) (ndvi p)"
  unfolding calculateFVC_def Let_def clamp_where
  by (cases "ndvi p") (auto simp: expression3_def Image_constant_def max_def min_def)

text \<open>
  Claim C2.  For every index raster and every pair of thresholds with ndvi_veg different
  from ndvi_soil, calculateFVC gives at each pixel that has a value the ratio
  (NDVI - ndvi_soil) / (ndvi_veg - ndvi_soil) clamped into the interval from 0 to 1: 0 where
  NDVI equals ndvi_soil, 1 where it equals ndvi_veg, and every value lies between 0 and 1.
\<close>

theorem calculateFVC_clamped_ratio:
  assumes "veg \<noteq> soil"
  shows "calculateFVC ndvi soil veg p =
           map_option (\<lambda>x. max 0 (min 1 ((x - soil) / (veg - soil)))) (ndvi p) \<and>
         (ndvi p = Some soil \<longrightarrow> calculateFVC ndvi soil veg p = Some 0) \<and>
         (ndvi p = Some veg \<longrightarrow> calculateFVC ndvi soil veg p = Some 1) \<and>
         (\<forall>y. calculateFVC ndvi soil veg p = Some y \<longrightarrow> 0 \<le> y \<and> y \<le> 1)"
  using assms by (auto simp: fvc_pixel ee_divide_def)

theorem calculateFVC_clamped_ratio_witness:
  "calculateFVC (Image_constant 0.2) 0.2 0.86 (0, 0) = Some 0 \<and>
   calculateFVC (Image_constant 0.86) 0.2 0.86 (0, 0) = Some 1 \<and>
   calculateFVC (Image_constant 0.53) 0.2 0.86 (0, 0) = Some 0.5 \<and>
   calculateFVC (Image_constant 0.95) 0.2 0.86 (0, 0) = Some 1 \<and>
   calculateFVC (Image_constant (- 0.3)) 0.2 0.86 (0, 0) = Some 0 \<and>
   calculateFVC no_value 0.2 0.86 (0, 0) = None"
proof -
  have ne: "(0.86::real) \<noteq> 0.2" by simp
  show ?thesis
    using calculateFVC_clamped_ratio [OF ne, of "Image_constant 0.2" "(0, 0)"]
      calculateFVC_clamped_ratio [OF ne, of "Image_constant 0.86" "(0, 0)"]
      calculateFVC_clamped_ratio [OF ne, of "Image_constant 0.53" "(0, 0)"]
      calculateFVC_clamped_ratio [OF ne, of "Image_constant 0.95" "(0, 0)"]
      calculateFVC_clamped_ratio [OF ne, of "Image_constant (- 0.3)" "(0, 0)"]
      calculateFVC_clamped_ratio [OF ne, of no_value "(0, 0)"]
    by (simp add: Image_constant_def no_value_def)
qed

section \<open>The cover script on the example source\<close>

lemma toUpperCase_max: "toUpperCase ''max'' = ''MAX''"
  by code_simp

lemma toUpperCase_mean: "toUpperCase ''mean'' = ''MEAN''"
  by code_simp

lemma get_L8: "SATELLITES_get ''L8'' = Own \<lparr>name = ''LANDSAT/LC08/C02/T1_L2'', startYear = 2013, endYear = None\<rparr>"
  by (simp add: SATELLITES_get_def SATELLITES_def)

lemma example_catalog_2021:
  "example_catalog ''LANDSAT/LC08/C02/T1_L2'' ''2021-01-01'' e = Some [scene_L8 9000 10000 20000 12000 1]"
  by (simp add: example_catalog_def SATELLITES_def)

lemma example_catalog_2020:
  "example_catalog ''LANDSAT/LC08/C02/T1_L2'' ''2020-01-01'' e = Some []"
  by (simp add: example_catalog_def SATELLITES_def)

lemma map_of_map_snd:
  "map_of (map (\<lambda>(n, r). (n, f r)) xs) b = map_option f (map_of xs b)"
  by (induction xs) auto

lemma select_maskClouds:
  "select (maskClouds img) b =
     map_option (mask_band (ee_not (ee_or (bitwiseAnd (QA_PIXEL img) (push_bit 3 1))
                          (bitwiseAnd (QA_PIXEL img) (push_bit 4 1))))) (select img b)"
  by (simp add: maskClouds_def Let_def updateMask_def select_def map_of_map_snd
        del: push_bit_of_1)

lemma clear_mask:
  "\<not> bit q 3 \<Longrightarrow> \<not> bit q 4 \<Longrightarrow>
   mask_band (ee_not (ee_or (bitwiseAnd (QA_constant q) (push_bit 3 1))
                          (bitwiseAnd (QA_constant q) (push_bit 4 1)))) r = r"
  by (rule ext)
     (simp add: mask_band_def ee_not_def ee_or_def bitwiseAnd_def QA_constant_def qa_bit
        del: push_bit_of_1)

lemma maskClouds_clear:
  "\<not> bit q 3 \<Longrightarrow> \<not> bit q 4 \<Longrightarrow> maskClouds (scene_L8 g r n s q) = scene_L8 g r n s q"
  by (simp add: maskClouds_def Let_def updateMask_def scene_L8_def clear_mask
        del: push_bit_of_1)

lemma maskClouds_example:
  "maskClouds (scene_L8 9000 10000 20000 12000 1) = scene_L8 9000 10000 20000 12000 1"
  by (rule maskClouds_clear) simp_all

lemma processed_example:
  "computeNDVI (maskClouds (scene_L8 9000 10000 20000 12000 1)) ''L8'' =
     Inr (addBands (scene_L8 9000 10000 20000 12000 1) ''NDVI''
            (\<lambda>p. index_pixel (Image_constant 20000 p) (Image_constant 10000 p)))"
  unfolding maskClouds_example
  by (rule computeNDVI_eq) (simp_all add: getBandNames_def scene_L8_def select_def)

lemma processed_example_NDVI:
  "select (addBands (scene_L8 9000 10000 20000 12000 1) ''NDVI'' r) ''NDVI'' = Some r"
  by (simp add: select_def addBands_def scene_L8_def)

lemma example_NDVI_value:
  "index_pixel (Image_constant 20000 p) (Image_constant 10000 p) = Some (11 / 17)"
  by (simp add: index_pixel_def Image_constant_def index_value_def clamp_index_def rescale_def
        ee_divide_def)

lemma fvc_period_example:
  "fvc_period example_catalog an
     (Own \<lparr>name = ''LANDSAT/LC08/C02/T1_L2'', startYear = 2013, endYear = None\<rparr>)
     ''L8'' ''max'' False s v fo (''2021-01-01'', ''2021-12-31'') =
   ([ExportToDrive (an @ ''_FVC_MAX_2021-01-01_2021-12-31'') fo
        [(''FVC'', calculateFVC (ee_max [\<lambda>p. index_pixel (Image_constant 20000 p) (Image_constant 10000 p)]) s v)],
     AddGeometryLayer ''study area'',
     AddLayer ''FVC_MAX_2021-01-01_2021-12-31''
        [(''FVC'', calculateFVC (ee_max [\<lambda>p. index_pixel (Image_constant 20000 p) (Image_constant 10000 p)]) s v)]],
    None)"
  by (simp add: fvc_period_def load_collection_def name_of_def example_catalog_2021
        processed_example processed_example_NDVI toUpperCase_max Let_def)

lemma fvc_period_empty:
  "fvc_period example_catalog an
     (Own \<lparr>name = ''LANDSAT/LC08/C02/T1_L2'', startYear = 2013, endYear = None\<rparr>)
     ''L8'' nt au s v fo (''2020-01-01'', ''2020-12-31'') =
   ([WarnNoImages ''2020-01-01'' ''2020-12-31''], None)"
  by (simp add: fvc_period_def load_collection_def name_of_def example_catalog_2020)

lemma fvc_period_auto:
  "fvc_period example_catalog an
     (Own \<lparr>name = ''LANDSAT/LC08/C02/T1_L2'', startYear = 2013, endYear = None\<rparr>)
     ''L8'' ''max'' True s v fo (''2021-01-01'', ''2021-12-31'') =
   ([], Some (ReferenceError ''ndviMax''))"
  by (simp add: fvc_period_def load_collection_def name_of_def example_catalog_2021
        processed_example processed_example_NDVI Let_def)

text \<open>
  Claim C3 as stated fails: with both thresholds 0.5 the run of the cover script ends
  without an exception, the export of the period is requested, and the exported cover is
  the value 0.
\<close>

theorem equal_thresholds_silently_clamped:
  "snd (exports_calculateFVC example_catalog ''aoi''
          (example_params [(''2021-01-01'', ''2021-12-31'')] (Some False) (Some 0.5) (Some 0.5)))
     = None \<and>
   map summary (fst (exports_calculateFVC example_catalog ''aoi''
          (example_params [(''2021-01-01'', ''2021-12-31'')] (Some False) (Some 0.5) (Some 0.5)))) =
     [(''export'', ''aoi_FVC_MAX_2021-01-01_2021-12-31'', [''FVC'']),
      (''geometry'', ''study area'', []),
      (''layer'', ''FVC_MAX_2021-01-01_2021-12-31'', [''FVC''])] \<and>
   exported_value (fst (exports_calculateFVC example_catalog ''aoi''
          (example_params [(''2021-01-01'', ''2021-12-31'')] (Some False) (Some 0.5) (Some 0.5))) ! 0)
      ''FVC'' (0, 0)
     = Some (Some 0)"
  by (simp add: exports_calculateFVC_def example_params_def get_L8 or_default_string_def
        or_false_def or_default_def fvc_period_example summary_def exported_value_def fvc_pixel
        ee_max_def max_pixel_def example_NDVI_value ee_divide_def)

text \<open>
  Claim C3, as amended.  With ndvi_veg equal to ndvi_soil calculateFVC raises no error:
  the division by zero gives 0, so every pixel that has an NDVI value gets the cover 0 and
  the others stay without value.  Whether a period ends with an exception, and which
  warnings, exports and layers it produces, does not depend on the two thresholds.
\<close>

theorem equal_thresholds_give_zero:
  "calculateFVC ndvi s s p = map_option (\<lambda>x. 0) (ndvi p) \<and>
   snd (fvc_period cat an en sat nt au s s fo pe) = snd (fvc_period cat an en sat nt au s' v' fo pe) \<and>
   map summary (fst (fvc_period cat an en sat nt au s s fo pe))
     = map summary (fst (fvc_period cat an en sat nt au s' v' fo pe))"
  by (auto simp: fvc_pixel ee_divide_def fvc_period_def Let_def summary_def option.map_comp comp_def
        split: sum.splits)

text \<open>
  Claim C4 against the code.  With automatic thresholds, the first period that has scenes
  ends the whole run with the reference error for \<open>ndviMax\<close>: nothing is exported and the
  period after it (an empty one here) is not visited.
\<close>

theorem auto_threshold_is_fatal:
  "exports_calculateFVC example_catalog ''aoi''
     (example_params [(''2021-01-01'', ''2021-12-31''), (''2020-01-01'', ''2020-12-31'')]
        (Some True) (Some 0.2) (Some 0.86))
   = ([], Some (ReferenceError ''ndviMax''))"
  by (simp add: exports_calculateFVC_def example_params_def get_L8 or_default_string_def
        or_false_def or_default_def fvc_period_auto)

text \<open>With automatic thresholds a period never reaches its export: it is either the
  warning of an empty period or an exception.\<close>

lemma auto_mode_never_exports:
  "fvc_period cat an en sat nt True s v fo pe = ([WarnNoImages (fst pe) (snd pe)], None) \<or>
   (\<exists>e. fvc_period cat an en sat nt True s v fo pe = ([], Some e))"
  by (auto simp: fvc_period_def Let_def split: sum.splits)

lemma example_composite:
  "ee_max [\<lambda>p. index_pixel (Image_constant 20000 p) (Image_constant 10000 p)] p = Some (11 / 17)"
  by (simp add: ee_max_def max_pixel_def example_NDVI_value)

text \<open>
  Claim C5 against the code.  In fixed mode with the supplied pair (0, 0.8) the script
  computes the cover with the soil threshold 0.2: for an NDVI of 11/17 it exports 38/51,
  the cover for (0.2, 0.8), where the supplied pair gives 55/68.
\<close>

theorem zero_soil_threshold_replaced:
  "exported_value (fst (exports_calculateFVC example_catalog ''aoi''
          (example_params [(''2021-01-01'', ''2021-12-31'')] (Some False) (Some 0) (Some 0.8))) ! 0)
      ''FVC'' (0, 0)
     = Some (Some (38 / 51)) \<and>
   calculateFVC (Image_constant (11 / 17)) 0.2 0.8 (0, 0) = Some (38 / 51) \<and>
   calculateFVC (Image_constant (11 / 17)) 0 0.8 (0, 0) = Some (55 / 68) \<and>
   or_default (Some 0) 0.2 = 0.2"
proof -
  have "exported_value (fst (exports_calculateFVC example_catalog ''aoi''
          (example_params [(''2021-01-01'', ''2021-12-31'')] (Some False) (Some 0) (Some 0.8))) ! 0)
      ''FVC'' (0, 0) = Some (Some (38 / 51))"
    by (simp add: exports_calculateFVC_def example_params_def get_L8 or_default_string_def
        or_false_def or_default_def fvc_period_example exported_value_def fvc_pixel
        example_composite ee_divide_def)
  moreover have "calculateFVC (Image_constant (11 / 17)) 0.2 0.8 (0, 0) = Some (38 / 51)"
    by (simp add: fvc_pixel Image_constant_def ee_divide_def)
  moreover have "calculateFVC (Image_constant (11 / 17)) 0 0.8 (0, 0) = Some (55 / 68)"
    by (simp add: fvc_pixel Image_constant_def ee_divide_def)
  moreover have "or_default (Some 0) 0.2 = 0.2"
    by (simp add: or_default_def)
  ultimately show ?thesis by blast
qed

lemma or_default_supplied: "x \<noteq> 0 \<Longrightarrow> or_default (Some x) d = x"
  by (simp add: or_default_def)

lemma or_default_missing: "or_default None d = d"
  by (simp add: or_default_def)

section \<open>Temporal statistics: valid values only, in any order\<close>

lemma valid_values_mset:
  "mset (valid_values vs) = image_mset the (filter_mset (\<lambda>v. v \<noteq> None) (mset vs))"
  by (induction vs rule: valid_values.induct) auto

lemma valid_values_perm:
  assumes "mset vs = mset ws"
  shows "mset (valid_values vs) = mset (valid_values ws)"
  by (simp add: valid_values_mset assms)

lemma mean_pixel_perm:
  assumes "mset vs = mset ws"
  shows "mean_pixel vs = mean_pixel ws"
proof -
  have m: "mset (valid_values vs) = mset (valid_values ws)"
    by (rule valid_values_perm [OF assms])
  have "sum_list (valid_values vs) = sum_list (valid_values ws)"
    using m by (metis sum_mset_sum_list)
  moreover have "length (valid_values vs) = length (valid_values ws)"
    using m by (metis size_mset)
  moreover have "(valid_values vs = []) = (valid_values ws = [])"
    using m by (metis mset_zero_iff)
  ultimately show ?thesis
    by (simp add: mean_pixel_def Let_def)
qed

lemma max_pixel_Max:
  "max_pixel vs = (if valid_values vs = [] then None else Some (Max (set (valid_values vs))))"
  by (cases "valid_values vs") (simp_all add: max_pixel_def Max.set_eq_fold [symmetric])

lemma max_pixel_perm:
  assumes "mset vs = mset ws"
  shows "max_pixel vs = max_pixel ws"
proof -
  have m: "mset (valid_values vs) = mset (valid_values ws)"
    by (rule valid_values_perm [OF assms])
  have "set (valid_values vs) = set (valid_values ws)"
    using m by (metis set_mset_mset)
  moreover have "(valid_values vs = []) = (valid_values ws = [])"
    using m by (metis mset_zero_iff)
  ultimately show ?thesis
    by (simp add: max_pixel_Max)
qed

lemma pixel_stack_perm:
  "mset rs = mset rs' \<Longrightarrow> mset (map (\<lambda>r. r p) rs) = mset (map (\<lambda>r. r p) rs')"
  by (metis mset_map)

lemma ee_mean_perm:
  assumes "mset rs = mset rs'"
  shows "ee_mean rs = ee_mean rs'"
proof
  fix p
  show "ee_mean rs p = ee_mean rs' p"
    unfolding ee_mean_def by (rule mean_pixel_perm [OF pixel_stack_perm [OF assms]])
qed

lemma ee_max_perm:
  assumes "mset rs = mset rs'"
  shows "ee_max rs = ee_max rs'"
proof
  fix p
  show "ee_max rs p = ee_max rs' p"
    unfolding ee_max_def by (rule max_pixel_perm [OF pixel_stack_perm [OF assms]])
qed

lemma call_stat_perm:
  assumes "mset rs = mset rs'"
  shows "call_stat st rs = call_stat st rs'"
proof -
  have "(rs = []) = (rs' = [])"
    using assms by (metis mset_zero_iff)
  then show ?thesis
    by (simp add: call_stat_def ee_mean_perm [OF assms] ee_max_perm [OF assms])
qed

lemma ee_mean_pixel:
  "ee_mean rs p =
     (if valid_values (map (\<lambda>r. r p) rs) = [] then None
      else Some (sum_list (valid_values (map (\<lambda>r. r p) rs))
                   / real (length (valid_values (map (\<lambda>r. r p) rs)))))"
  by (simp add: ee_mean_def mean_pixel_def Let_def)

lemma ee_max_pixel:
  "ee_max rs p =
     (if valid_values (map (\<lambda>r. r p) rs) = [] then None
      else Some (Max (set (valid_values (map (\<lambda>r. r p) rs)))))"
  by (simp add: ee_max_def max_pixel_Max)

lemma valid_stack_mset:
  "mset (valid_values (map (\<lambda>r. r p) rs))
     = image_mset the (filter_mset (\<lambda>v. v \<noteq> None) (image_mset (\<lambda>r. r p) (mset rs)))"
  by (simp add: valid_values_mset)

lemma valid_contributions_list:
  "valid_contributions rs p = mset (valid_values (map (\<lambda>r. r p) rs))"
  by (simp add: valid_contributions_def valid_values_mset)

lemma ee_mean_is_mean_of_valid: "ee_mean rs = mean_of_valid rs"
proof
  fix p
  let ?xs = "valid_values (map (\<lambda>r. r p) rs)"
  have "sum_mset (mset ?xs) = sum_list ?xs"
    by (rule sum_mset_sum_list)
  moreover have "size (mset ?xs) = length ?xs"
    by (rule size_mset)
  moreover have "(mset ?xs = {#}) = (?xs = [])"
    by (rule mset_zero_iff)
  ultimately show "ee_mean rs p = mean_of_valid rs p"
    by (simp add: ee_mean_pixel mean_of_valid_def valid_contributions_list)
qed

lemma ee_max_is_max_of_valid: "ee_max rs = max_of_valid rs"
proof
  fix p
  let ?xs = "valid_values (map (\<lambda>r. r p) rs)"
  have "set_mset (mset ?xs) = set ?xs"
    by (rule set_mset_mset)
  moreover have "(mset ?xs = {#}) = (?xs = [])"
    by (rule mset_zero_iff)
  ultimately show "ee_max rs p = max_of_valid rs p"
    by (simp add: ee_max_pixel max_of_valid_def valid_contributions_list)
qed

lemma no_valid_contribution:
  "(\<forall>r\<in>set rs. r p = None) \<Longrightarrow> valid_contributions rs p = {#}"
  by (induction rs) (simp_all add: valid_contributions_def)

lemma call_stat_of_valid:
  "rs \<noteq> [] \<Longrightarrow>
   call_stat ''mean'' rs = Some [(''NDVI'', mean_of_valid rs)] \<and>
   call_stat ''max'' rs = Some [(''NDVI'', max_of_valid rs)]"
  by (simp add: call_stat_def ee_mean_is_mean_of_valid ee_max_is_max_of_valid)

lemma map_images_succeeds:
  "\<forall>x\<in>set xs. \<exists>y. f x = Inr y \<Longrightarrow> map_images f xs = Inr (map (\<lambda>x. projr (f x)) xs)"
  by (induction xs) auto

lemma map_images_result:
  "map_images f xs = Inr ys \<Longrightarrow>
   (\<forall>x\<in>set xs. \<exists>y. f x = Inr y) \<and> ys = map (\<lambda>x. projr (f x)) xs"
  by (induction xs arbitrary: ys) (auto split: sum.splits)

lemma select_all_succeeds:
  "\<forall>i\<in>set imgs. select i b \<noteq> None \<Longrightarrow>
   select_all imgs b = Inr (map (\<lambda>i. the (select i b)) imgs)"
  by (induction imgs) auto

lemma select_all_result:
  "select_all imgs b = Inr rs \<Longrightarrow>
   (\<forall>i\<in>set imgs. select i b \<noteq> None) \<and> rs = map (\<lambda>i. the (select i b)) imgs"
  by (induction imgs arbitrary: rs) (auto split: sum.splits option.splits)

lemma processed_perm:
  assumes "mset scenes' = mset scenes"
    and "map_images f scenes = Inr processed"
    and "select_all processed b = Inr ndvis"
  shows "\<exists>processed' ndvis'. map_images f scenes' = Inr processed' \<and>
           select_all processed' b = Inr ndvis' \<and> mset ndvis' = mset ndvis \<and>
           length processed' = length processed"
proof -
  let ?g = "\<lambda>x. projr (f x)"
  let ?h = "\<lambda>i. the (select i b)"
  have s: "set scenes' = set scenes"
    using assms(1) by (metis set_mset_mset)
  have p: "\<forall>x\<in>set scenes. \<exists>y. f x = Inr y" "processed = map ?g scenes"
    using map_images_result [OF assms(2)] by simp_all
  have n: "\<forall>i\<in>set processed. select i b \<noteq> None" "ndvis = map ?h processed"
    using select_all_result [OF assms(3)] by simp_all
  have 1: "map_images f scenes' = Inr (map ?g scenes')"
    using p(1) s by (simp add: map_images_succeeds)
  have "set (map ?g scenes') = set processed"
    using p(2) s by simp
  then have 2: "select_all (map ?g scenes') b = Inr (map ?h (map ?g scenes'))"
    using n(1) by (intro select_all_succeeds) simp
  have "mset (map ?h (map ?g scenes')) = image_mset ?h (image_mset ?g (mset scenes'))"
    by (simp only: mset_map)
  also have "\<dots> = image_mset ?h (image_mset ?g (mset scenes))"
    by (simp only: assms(1))
  also have "\<dots> = mset ndvis"
    by (simp only: p(2) n(2) mset_map)
  finally have 3: "mset (map ?h (map ?g scenes')) = mset ndvis" .
  have 4: "length (map ?g scenes') = length processed"
    using assms(1) p(2) by (metis length_map size_mset)
  show ?thesis
    using 1 2 3 4 by blast
qed

lemma calculateNDVIStats_composite:
  assumes "SATELLITES_get (satelliteId ps) = Own s"
    and "cat (name s) (startDate ps) (endDate ps) = Some scenes"
    and "map_images (\<lambda>img. computeNDVI (maskClouds img) (satelliteId ps)) scenes = Inr processed"
    and "select_all processed ''NDVI'' = Inr ndvis"
    and "statType ps = ''mean'' \<or> statType ps = ''max''"
  shows "calculateNDVIStats cat an ps =
           Inr \<lparr>imageCount = length processed,
                statNDVI = the (call_stat (statType ps) ndvis),
                description = an @ ''_NDVI_'' @ statType ps @ ''_'' @ startDate ps @ ''_''
                  @ endDate ps\<rparr>"
  using assms
  by (auto simp: calculateNDVIStats_def load_collection_def name_of_def call_stat_def)


text \<open>
  Claim C6.  The statistics run selects the NDVI band of every processed scene and applies
  the statistic named by the parameter: for \<open>mean\<close> the composite is, at every pixel,
  the arithmetic mean of the valid contributions (for the contributions 0.1, 0.5, no value,
  0.3 it is 0.3), for \<open>max\<close> their maximum (0.5); a pixel without any valid contribution
  has no value; and a source that delivers the same scenes in another order gives the same
  composite.  An empty collection gives a composite without bands.
\<close>

theorem temporal_statistics_over_valid_values:
  "(rs \<noteq> [] \<longrightarrow>
      call_stat ''mean'' rs = Some [(''NDVI'', mean_of_valid rs)] \<and>
      call_stat ''max'' rs = Some [(''NDVI'', max_of_valid rs)]) \<and>
   (mset rs' = mset rs \<longrightarrow> call_stat st rs' = call_stat st rs) \<and>
   ((\<forall>r\<in>set rs. r p = None) \<longrightarrow> mean_of_valid rs p = None \<and> max_of_valid rs p = None) \<and>
   (SATELLITES_get (satelliteId ps) = Own s \<longrightarrow>
    cat (name s) (startDate ps) (endDate ps) = Some scenes \<longrightarrow>
    map_images (\<lambda>img. computeNDVI (maskClouds img) (satelliteId ps)) scenes = Inr processed \<longrightarrow>
    select_all processed ''NDVI'' = Inr ndvis \<longrightarrow>
    statType ps = ''mean'' \<or> statType ps = ''max'' \<longrightarrow>
      (\<exists>r. calculateNDVIStats cat an ps = Inr r \<and> imageCount r = length scenes \<and>
         statNDVI r =
           (if scenes = [] then []
            else [(''NDVI'', if statType ps = ''mean'' then mean_of_valid ndvis
                             else max_of_valid ndvis)]) \<and>
         (cat' (name s) (startDate ps) (endDate ps) = Some scenes' \<longrightarrow>
          mset scenes' = mset scenes \<longrightarrow>
            (\<exists>r'. calculateNDVIStats cat' an ps = Inr r' \<and> statNDVI r' = statNDVI r))))"
proof (intro conjI impI)
  assume "rs \<noteq> []"
  then show "call_stat ''mean'' rs = Some [(''NDVI'', mean_of_valid rs)]"
    and "call_stat ''max'' rs = Some [(''NDVI'', max_of_valid rs)]"
    using call_stat_of_valid by blast+
next
  assume "mset rs' = mset rs"
  then show "call_stat st rs' = call_stat st rs"
    by (rule call_stat_perm)
next
  assume "\<forall>r\<in>set rs. r p = None"
  then have "valid_contributions rs p = {#}"
    by (rule no_valid_contribution)
  then show "mean_of_valid rs p = None" and "max_of_valid rs p = None"
    by (simp_all add: mean_of_valid_def max_of_valid_def)
next
  let ?f = "\<lambda>img. computeNDVI (maskClouds img) (satelliteId ps)"
  assume own: "SATELLITES_get (satelliteId ps) = Own s"
    and sc: "cat (name s) (startDate ps) (endDate ps) = Some scenes"
    and pr: "map_images ?f scenes = Inr processed"
    and nd: "select_all processed ''NDVI'' = Inr ndvis"
    and st: "statType ps = ''mean'' \<or> statType ps = ''max''"
  let ?r = "\<lparr>imageCount = length processed,
             statNDVI = the (call_stat (statType ps) ndvis),
             description = an @ ''_NDVI_'' @ statType ps @ ''_'' @ startDate ps @ ''_''
               @ endDate ps\<rparr>"
  have run: "calculateNDVIStats cat an ps = Inr ?r"
    by (rule calculateNDVIStats_composite [where cat = cat, OF own sc pr nd st])
  have len: "length processed = length scenes" "length ndvis = length scenes"
    using map_images_result [OF pr] select_all_result [OF nd] by simp_all
  then have empty: "(ndvis = []) = (scenes = [])"
    by (metis length_0_conv)
  have comp: "the (call_stat (statType ps) ndvis) =
           (if scenes = [] then []
            else [(''NDVI'', if statType ps = ''mean'' then mean_of_valid ndvis
                             else max_of_valid ndvis)])"
  proof (cases "scenes = []")
    case True
    with empty st show ?thesis
      by (auto simp: call_stat_def)
  next
    case False
    with empty have "ndvis \<noteq> []" by simp
    with False st show ?thesis
      using call_stat_of_valid [of ndvis] by auto
  qed
  have perm: "\<exists>r'. calculateNDVIStats cat' an ps = Inr r' \<and> statNDVI r' = statNDVI ?r"
    if sc': "cat' (name s) (startDate ps) (endDate ps) = Some scenes'"
      and ms: "mset scenes' = mset scenes"
  proof -
    obtain processed' ndvis' where pr': "map_images ?f scenes' = Inr processed'"
      and nd': "select_all processed' ''NDVI'' = Inr ndvis'"
      and mn: "mset ndvis' = mset ndvis"
      using processed_perm [OF ms pr nd] by blast
    have "calculateNDVIStats cat' an ps =
            Inr \<lparr>imageCount = length processed',
                 statNDVI = the (call_stat (statType ps) ndvis'),
                 description = an @ ''_NDVI_'' @ statType ps @ ''_'' @ startDate ps @ ''_''
                   @ endDate ps\<rparr>"
      by (rule calculateNDVIStats_composite [where cat = cat', OF own sc' pr' nd' st])
    moreover have "call_stat (statType ps) ndvis' = call_stat (statType ps) ndvis"
      by (rule call_stat_perm [OF mn])
    ultimately show ?thesis by simp
  qed
  show "\<exists>r. calculateNDVIStats cat an ps = Inr r \<and> imageCount r = length scenes \<and>
         statNDVI r =
           (if scenes = [] then []
            else [(''NDVI'', if statType ps = ''mean'' then mean_of_valid ndvis
                             else max_of_valid ndvis)]) \<and>
         (cat' (name s) (startDate ps) (endDate ps) = Some scenes' \<longrightarrow>
          mset scenes' = mset scenes \<longrightarrow>
            (\<exists>r'. calculateNDVIStats cat' an ps = Inr r' \<and> statNDVI r' = statNDVI r))"
  proof (intro exI [of _ ?r] conjI)
    show "calculateNDVIStats cat an ps = Inr ?r" by (rule run)
    show "imageCount ?r = length scenes" using len by simp
    show "statNDVI ?r =
           (if scenes = [] then []
            else [(''NDVI'', if statType ps = ''mean'' then mean_of_valid ndvis
                             else max_of_valid ndvis)])"
      using comp by simp
    show "cat' (name s) (startDate ps) (endDate ps) = Some scenes' \<longrightarrow>
          mset scenes' = mset scenes \<longrightarrow>
            (\<exists>r'. calculateNDVIStats cat' an ps = Inr r' \<and> statNDVI r' = statNDVI ?r)"
      using perm by blast
  qed
qed


lemma cloudy_mask:
  "bit q 3 \<or> bit q 4 \<Longrightarrow>
   mask_band (ee_not (ee_or (bitwiseAnd (QA_constant q) (push_bit 3 1))
                          (bitwiseAnd (QA_constant q) (push_bit 4 1)))) r = (\<lambda>p. None)"
  by (rule ext)
     (auto simp: mask_band_def ee_not_def ee_or_def bitwiseAnd_def QA_constant_def qa_bit
        simp del: push_bit_of_1)

lemma maskClouds_cloudy:
  "bit q 3 \<or> bit q 4 \<Longrightarrow>
   maskClouds (scene_L8 g r n s q) =
     \<lparr>bands = [(''SR_B3'', no_value), (''SR_B4'', no_value), (''SR_B5'', no_value),
               (''SR_B7'', no_value)],
      QA_PIXEL = (\<lambda>p. None), SPACECRAFT_ID = ''LANDSAT_8''\<rparr>"
  by (simp add: maskClouds_def Let_def updateMask_def scene_L8_def cloudy_mask no_value_def
        del: push_bit_of_1)

lemma processed_cloudy:
  "computeNDVI (maskClouds (scene_L8 9000 10000 20000 12000 24)) ''L8'' =
     Inr (addBands (maskClouds (scene_L8 9000 10000 20000 12000 24)) ''NDVI''
            (\<lambda>p. index_pixel (no_value p) (no_value p)))"
  by (rule computeNDVI_eq) (simp_all add: maskClouds_cloudy getBandNames_def select_def)

lemma processed_equal_bands:
  "computeNDVI (maskClouds (scene_L8 9000 20000 20000 12000 1)) ''L8'' =
     Inr (addBands (scene_L8 9000 20000 20000 12000 1) ''NDVI''
            (\<lambda>p. index_pixel (Image_constant 20000 p) (Image_constant 20000 p)))"
proof -
  have "maskClouds (scene_L8 9000 20000 20000 12000 1) = scene_L8 9000 20000 20000 12000 1"
    by (rule maskClouds_clear) simp_all
  then show ?thesis
    by (simp only:) (rule computeNDVI_eq, simp_all add: getBandNames_def scene_L8_def select_def)
qed

lemma select_added_NDVI:
  "''NDVI'' \<notin> fst ` set (bands img) \<Longrightarrow> select (addBands img ''NDVI'' r) ''NDVI'' = Some r"
  by (simp add: select_def addBands_def map_add_def map_of_eq_None_iff [THEN iffD2])

lemma example_stack_processed:
  "map_images (\<lambda>img. computeNDVI (maskClouds img) ''L8'') example_stack =
     Inr [addBands (scene_L8 9000 10000 20000 12000 1) ''NDVI''
            (\<lambda>p. index_pixel (Image_constant 20000 p) (Image_constant 10000 p)),
          addBands (maskClouds (scene_L8 9000 10000 20000 12000 24)) ''NDVI''
            (\<lambda>p. index_pixel (no_value p) (no_value p)),
          addBands (scene_L8 9000 20000 20000 12000 1) ''NDVI''
            (\<lambda>p. index_pixel (Image_constant 20000 p) (Image_constant 20000 p))]"
  by (simp add: example_stack_def processed_example processed_cloudy processed_equal_bands)

lemma example_stack_ndvis:
  "select_all
     [addBands (scene_L8 9000 10000 20000 12000 1) ''NDVI''
        (\<lambda>p. index_pixel (Image_constant 20000 p) (Image_constant 10000 p)),
      addBands (maskClouds (scene_L8 9000 10000 20000 12000 24)) ''NDVI''
        (\<lambda>p. index_pixel (no_value p) (no_value p)),
      addBands (scene_L8 9000 20000 20000 12000 1) ''NDVI''
        (\<lambda>p. index_pixel (Image_constant 20000 p) (Image_constant 20000 p))] ''NDVI'' =
   Inr [\<lambda>p. index_pixel (Image_constant 20000 p) (Image_constant 10000 p),
        \<lambda>p. index_pixel (no_value p) (no_value p),
        \<lambda>p. index_pixel (Image_constant 20000 p) (Image_constant 20000 p)]"
proof -
  have "''NDVI'' \<notin> fst ` set (bands (scene_L8 9000 10000 20000 12000 1))"
    "''NDVI'' \<notin> fst ` set (bands (scene_L8 9000 20000 20000 12000 1))"
    by (simp_all add: scene_L8_def)
  moreover have "''NDVI'' \<notin> fst ` set (bands (maskClouds (scene_L8 9000 10000 20000 12000 24)))"
    by (simp add: maskClouds_cloudy)
  ultimately show ?thesis
    by (simp add: select_added_NDVI)
qed

lemma example_stack_values:
  "mean_of_valid
     [\<lambda>p. index_pixel (Image_constant 20000 p) (Image_constant 10000 p),
      \<lambda>p. index_pixel (no_value p) (no_value p),
      \<lambda>p. index_pixel (Image_constant 20000 p) (Image_constant 20000 p)] (0, 0) = Some (11 / 34)"
  "max_of_valid
     [\<lambda>p. index_pixel (Image_constant 20000 p) (Image_constant 10000 p),
      \<lambda>p. index_pixel (no_value p) (no_value p),
      \<lambda>p. index_pixel (Image_constant 20000 p) (Image_constant 20000 p)] (0, 0) = Some (11 / 17)"
proof -
  have v: "index_pixel (Image_constant 20000 (0, 0)) (Image_constant 10000 (0, 0)) = Some (11 / 17)"
    "index_pixel (no_value (0, 0)) (no_value (0, 0)) = None"
    "index_pixel (Image_constant 20000 (0, 0)) (Image_constant 20000 (0, 0)) = Some 0"
    by (simp_all add: index_pixel_def Image_constant_def no_value_def index_value_def
          clamp_index_def rescale_def ee_divide_def)
  show "mean_of_valid
     [\<lambda>p. index_pixel (Image_constant 20000 p) (Image_constant 10000 p),
      \<lambda>p. index_pixel (no_value p) (no_value p),
      \<lambda>p. index_pixel (Image_constant 20000 p) (Image_constant 20000 p)] (0, 0) = Some (11 / 34)"
    unfolding ee_mean_is_mean_of_valid [symmetric] ee_mean_pixel by (simp add: v)
  show "max_of_valid
     [\<lambda>p. index_pixel (Image_constant 20000 p) (Image_constant 10000 p),
      \<lambda>p. index_pixel (no_value p) (no_value p),
      \<lambda>p. index_pixel (Image_constant 20000 p) (Image_constant 20000 p)] (0, 0) = Some (11 / 17)"
    unfolding ee_max_is_max_of_valid [symmetric] ee_max_pixel by (simp add: v)
qed

lemma stat_value_Inr:
  "stat_value (Inr r) p = map_option (\<lambda>c. c p) (map_of (statNDVI r) ''NDVI'')"
  by (simp add: stat_value_def)

theorem temporal_statistics_over_valid_values_witness:
  "stat_value (calculateNDVIStats (stack_catalog example_stack) ''aoi''
      (example_stat_params ''mean'')) (0, 0) = Some (Some (11 / 34)) \<and>
   stat_value (calculateNDVIStats (stack_catalog (rev example_stack)) ''aoi''
      (example_stat_params ''mean'')) (0, 0) = Some (Some (11 / 34)) \<and>
   stat_value (calculateNDVIStats (stack_catalog example_stack) ''aoi''
      (example_stat_params ''max'')) (0, 0) = Some (Some (11 / 17)) \<and>
   stat_value (calculateNDVIStats (stack_catalog (rev example_stack)) ''aoi''
      (example_stat_params ''max'')) (0, 0) = Some (Some (11 / 17)) \<and>
   call_stat ''mean'' [Image_constant 0.1, Image_constant 0.5, no_value, Image_constant 0.3]
     = Some [(''NDVI'',
         mean_of_valid [Image_constant 0.1, Image_constant 0.5, no_value, Image_constant 0.3])] \<and>
   call_stat ''max'' [Image_constant 0.1, Image_constant 0.5, no_value, Image_constant 0.3]
     = Some [(''NDVI'',
         max_of_valid [Image_constant 0.1, Image_constant 0.5, no_value, Image_constant 0.3])] \<and>
   mean_of_valid [Image_constant 0.1, Image_constant 0.5, no_value, Image_constant 0.3] (0, 0)
     = Some 0.3 \<and>
   max_of_valid [Image_constant 0.1, Image_constant 0.5, no_value, Image_constant 0.3] (0, 0)
     = Some 0.5 \<and>
   mean_of_valid [no_value, no_value] (0, 0) = None \<and>
   max_of_valid [no_value, no_value] (0, 0) = None"
proof -
  let ?L8 = "\<lparr>name = ''LANDSAT/LC08/C02/T1_L2'', startYear = 2013, endYear = None\<rparr>"
  let ?P = "[addBands (scene_L8 9000 10000 20000 12000 1) ''NDVI''
               (\<lambda>p. index_pixel (Image_constant 20000 p) (Image_constant 10000 p)),
             addBands (maskClouds (scene_L8 9000 10000 20000 12000 24)) ''NDVI''
               (\<lambda>p. index_pixel (no_value p) (no_value p)),
             addBands (scene_L8 9000 20000 20000 12000 1) ''NDVI''
               (\<lambda>p. index_pixel (Image_constant 20000 p) (Image_constant 20000 p))]"
  let ?N = "[\<lambda>p. index_pixel (Image_constant 20000 p) (Image_constant 10000 p),
             \<lambda>p. index_pixel (no_value p) (no_value p),
             \<lambda>p. index_pixel (Image_constant 20000 p) (Image_constant 20000 p)]"
  let ?rs = "[Image_constant 0.1, Image_constant 0.5, no_value, Image_constant 0.3]"
  have ne: "example_stack \<noteq> []"
    by (simp add: example_stack_def)
  have pipeline:
    "\<exists>r. calculateNDVIStats (stack_catalog example_stack) ''aoi'' (example_stat_params st) = Inr r \<and>
        imageCount r = length example_stack \<and>
        statNDVI r =
          (if example_stack = [] then []
           else [(''NDVI'', if statType (example_stat_params st) = ''mean''
                            then mean_of_valid ?N else max_of_valid ?N)]) \<and>
        (stack_catalog (rev example_stack) (name ?L8) (startDate (example_stat_params st))
           (endDate (example_stat_params st)) = Some (rev example_stack) \<longrightarrow>
         mset (rev example_stack) = mset example_stack \<longrightarrow>
           (\<exists>r'. calculateNDVIStats (stack_catalog (rev example_stack)) ''aoi''
                    (example_stat_params st) = Inr r' \<and> statNDVI r' = statNDVI r))"
    if "st = ''mean'' \<or> st = ''max''" for st
  proof -
    have h1: "SATELLITES_get (satelliteId (example_stat_params st)) = Own ?L8"
      by (simp add: example_stat_params_def get_L8)
    have h2: "stack_catalog example_stack (name ?L8) (startDate (example_stat_params st))
                (endDate (example_stat_params st)) = Some example_stack"
      by (simp add: stack_catalog_def SATELLITES_def)
    have h3: "map_images (\<lambda>img. computeNDVI (maskClouds img) (satelliteId (example_stat_params st)))
                example_stack = Inr ?P"
      using example_stack_processed by (simp add: example_stat_params_def)
    have h5: "statType (example_stat_params st) = ''mean'' \<or>
              statType (example_stat_params st) = ''max''"
      using that by (simp add: example_stat_params_def)
    show ?thesis
      by (rule temporal_statistics_over_valid_values
                [where cat = "stack_catalog example_stack"
                   and cat' = "stack_catalog (rev example_stack)",
                 THEN conjunct2, THEN conjunct2, THEN conjunct2, rule_format,
                 OF h1 h2 h3 example_stack_ndvis h5])
  qed
  have rev_cat: "stack_catalog (rev example_stack) (name ?L8) a b = Some (rev example_stack)"
    for a b
    by (simp add: stack_catalog_def SATELLITES_def)
  have both: "stat_value (calculateNDVIStats (stack_catalog example_stack) ''aoi''
                 (example_stat_params st)) (0, 0)
                = Some ((if st = ''mean'' then mean_of_valid ?N else max_of_valid ?N) (0, 0)) \<and>
              stat_value (calculateNDVIStats (stack_catalog (rev example_stack)) ''aoi''
                 (example_stat_params st)) (0, 0)
                = Some ((if st = ''mean'' then mean_of_valid ?N else max_of_valid ?N) (0, 0))"
    if st: "st = ''mean'' \<or> st = ''max''" for st
  proof -
    have mr: "mset (rev example_stack) = mset example_stack"
      by (rule mset_rev)
    obtain r r' where
      r: "calculateNDVIStats (stack_catalog example_stack) ''aoi'' (example_stat_params st) = Inr r"
      and c: "statNDVI r = [(''NDVI'', if st = ''mean'' then mean_of_valid ?N else max_of_valid ?N)]"
      and r': "calculateNDVIStats (stack_catalog (rev example_stack)) ''aoi''
                 (example_stat_params st) = Inr r'"
      and c': "statNDVI r' = statNDVI r"
      using pipeline [OF st] ne rev_cat mr
      by (auto simp: example_stat_params_def)
    show ?thesis
      by (simp add: r r' stat_value_Inr c c')
  qed
  have red: "call_stat ''mean'' ?rs = Some [(''NDVI'', mean_of_valid ?rs)] \<and>
             call_stat ''max'' ?rs = Some [(''NDVI'', max_of_valid ?rs)]"
    by (rule temporal_statistics_over_valid_values [THEN conjunct1, rule_format]) simp
  have vals: "mean_of_valid ?rs (0, 0) = Some 0.3" "max_of_valid ?rs (0, 0) = Some 0.5"
    unfolding ee_mean_is_mean_of_valid [symmetric] ee_max_is_max_of_valid [symmetric]
      ee_mean_pixel ee_max_pixel
    by (simp_all add: Image_constant_def no_value_def)
  have none: "mean_of_valid [no_value, no_value] (0, 0) = None \<and>
              max_of_valid [no_value, no_value] (0, 0) = None"
    by (rule temporal_statistics_over_valid_values
               [THEN conjunct2, THEN conjunct2, THEN conjunct1, rule_format])
       (simp add: no_value_def)
  show ?thesis
    using both [of "''mean''"] both [of "''max''"] red vals none
    by (simp add: example_stack_values)
qed

section \<open>Empty periods in the two batch scripts\<close>

lemma computeNDVI_batch_eq:
  "select img (if contains ''LANDSAT_8'' (SPACECRAFT_ID img) \<or> contains ''LANDSAT_9'' (SPACECRAFT_ID img)
               then ''SR_B5'' else ''SR_B4'') = Some a \<Longrightarrow>
   select img (if contains ''LANDSAT_8'' (SPACECRAFT_ID img) \<or> contains ''LANDSAT_9'' (SPACECRAFT_ID img)
               then ''SR_B4'' else ''SR_B3'') = Some b \<Longrightarrow>
   computeNDVI_batch img = Inr (addBands img ''NDVI'' (\<lambda>p. index_pixel (a p) (b p)))"
  unfolding computeNDVI_batch_def Let_def index_pipeline by simp

lemma processed_batch_example:
  "computeNDVI_batch (maskClouds (scene_L8 9000 10000 20000 12000 1)) =
     Inr (addBands (scene_L8 9000 10000 20000 12000 1) ''NDVI''
            (\<lambda>p. index_pixel (Image_constant 20000 p) (Image_constant 10000 p)))"
  unfolding maskClouds_example
  by (rule computeNDVI_batch_eq) (simp_all add: scene_L8_def select_def)

lemma enabledSatellites_eq: "enabledSatellites = [''L9'', ''L8'', ''L5'', ''L4'']"
  by (simp add: enabledSatellites_def satelliteConfig_def)

lemma merge_enabled_2020:
  "merge_enabled example_catalog [''L9'', ''L8'', ''L5'', ''L4''] ''2020-01-01'' e = Inr []"
  by (simp add: SATELLITES_get_def SATELLITES_def load_collection_def name_of_def
        example_catalog_def)

lemma merge_enabled_2021:
  "merge_enabled example_catalog [''L9'', ''L8'', ''L5'', ''L4''] ''2021-01-01'' e =
     Inr [scene_L8 9000 10000 20000 12000 1]"
  by (simp add: SATELLITES_get_def SATELLITES_def load_collection_def name_of_def
        example_catalog_def)

lemma processNDVI_2020:
  "processNDVI example_catalog ''aoi'' ''2020-01-01'' ''2020-12-31'' fo =
     Inr ([ExportToDrive ''aoi_NDVI_mean_20200101_20201231'' fo [],
           AddLayer ''2020-01-01 to 2020-12-31 NDVI mean'' []],
          \<lparr>period = ''2020-01-01_2020-12-31'', totalImages = 0, processedImages = 0,
           filename = ''aoi_NDVI_mean_20200101_20201231''\<rparr>)"
  unfolding processNDVI_def enabledSatellites_eq merge_enabled_2020
  by (simp add: call_stat_def batch_statType_def Let_def)

lemma processNDVI_2021:
  "processNDVI example_catalog ''aoi'' ''2021-01-01'' ''2021-12-31'' fo =
     Inr ([ExportToDrive ''aoi_NDVI_mean_20210101_20211231'' fo
             [(''NDVI'', ee_mean [\<lambda>p. index_pixel (Image_constant 20000 p) (Image_constant 10000 p)])],
           AddLayer ''2021-01-01 to 2021-12-31 NDVI mean''
             [(''NDVI'', ee_mean [\<lambda>p. index_pixel (Image_constant 20000 p) (Image_constant 10000 p)])]],
          \<lparr>period = ''2021-01-01_2021-12-31'', totalImages = 1, processedImages = 1,
           filename = ''aoi_NDVI_mean_20210101_20211231''\<rparr>)"
  unfolding processNDVI_def enabledSatellites_eq merge_enabled_2021
  by (simp add: call_stat_def batch_statType_def Let_def processed_batch_example
        processed_example_NDVI)

lemma fvc_empty_period_skipped:
  "name_of entry = Some cid \<Longrightarrow> cat cid s e = Some [] \<Longrightarrow>
   fvc_period cat an entry sat nt au so ve fo (s, e) = ([WarnNoImages s e], None)"
  by (simp add: fvc_period_def load_collection_def)

lemma forEach_continues:
  "f x = (ev, None) \<Longrightarrow> forEach f (x # xs) = (ev @ fst (forEach f xs), snd (forEach f xs))"
  by (simp add: case_prod_unfold)

text \<open>
  Claim C7 against the code.  In the batch NDVI script a period without scenes is not
  skipped: no warning is issued, and an export and a map layer are requested for a
  composite without bands; the run goes on and the next period is processed.  The cover
  script, on the same two periods, does what the claim says: a warning for the empty
  period, nothing exported for it, and the next period processed.
\<close>

theorem batch_exports_empty_period:
  "snd (batch_main example_catalog ''aoi''
          [(''2020-01-01'', ''2020-12-31''), (''2021-01-01'', ''2021-12-31'')]) = None \<and>
   map summary (fst (batch_main example_catalog ''aoi''
          [(''2020-01-01'', ''2020-12-31''), (''2021-01-01'', ''2021-12-31'')])) =
     [(''geometry'', ''study area'', []),
      (''export'', ''aoi_NDVI_mean_20200101_20201231'', []),
      (''layer'', ''2020-01-01 to 2020-12-31 NDVI mean'', []),
      (''export'', ''aoi_NDVI_mean_20210101_20211231'', [''NDVI'']),
      (''layer'', ''2021-01-01 to 2021-12-31 NDVI mean'', [''NDVI''])] \<and>
   map summary (fst (exports_calculateFVC example_catalog ''aoi''
          (example_params [(''2020-01-01'', ''2020-12-31''), (''2021-01-01'', ''2021-12-31'')]
             (Some False) (Some 0.2) (Some 0.86)))) =
     [(''warning'', ''2020-01-01_2020-12-31'', []),
      (''export'', ''aoi_FVC_MAX_2021-01-01_2021-12-31'', [''FVC'']),
      (''geometry'', ''study area'', []),
      (''layer'', ''FVC_MAX_2021-01-01_2021-12-31'', [''FVC''])]"
  by (simp add: batch_main_def processNDVI_2020 processNDVI_2021 summary_def
        exports_calculateFVC_def example_params_def get_L8 or_default_string_def
        or_false_def or_default_def fvc_period_example fvc_period_empty)

section \<open>Validation of the satellite identifier\<close>

text \<open>
  Claim C9 against the code.  The identifier \<open>constructor\<close> is not a supported satellite,
  yet the test of the satellite table lets it pass, because the table inherits a member of
  that name: the script goes on to ask the imagery source for a collection named
  \<open>Object\<close> and fails there.  An identifier that is neither a key of the table nor
  an inherited member, such as \<open>L6\<close>, is rejected at validation.
\<close>

theorem inherited_key_passes_validation:
  "calculateNDVIStats example_catalog ''aoi'' (example_ndvi_params ''constructor'')
     = Inl (CollectionNotFound ''Object'') \<and>
   SATELLITES_get ''constructor'' = Inherited (Some ''Object'') \<and>
   calculateNDVIStats example_catalog ''aoi'' (example_ndvi_params ''L6'')
     = Inl (UnknownSatellite ''L6'')"
  by (simp add: calculateNDVIStats_def example_ndvi_params_def SATELLITES_get_def SATELLITES_def
        Object_prototype_def name_of_def load_collection_def example_catalog_def)

lemma getBandNames_supported:
  "getBandNames ''L8'' = \<lparr>nir = ''SR_B5'', red = ''SR_B4''\<rparr> \<and>
   getBandNames ''L9'' = \<lparr>nir = ''SR_B5'', red = ''SR_B4''\<rparr> \<and>
   getBandNames ''L4'' = \<lparr>nir = ''SR_B4'', red = ''SR_B3''\<rparr> \<and>
   getBandNames ''L5'' = \<lparr>nir = ''SR_B4'', red = ''SR_B3''\<rparr> \<and>
   getBandNames ''L7'' = \<lparr>nir = ''SR_B4'', red = ''SR_B3''\<rparr>"
  by (simp add: getBandNames_def)

lemma undefined_satellite_rejected:
  "SATELLITES_get (satelliteId ps) = Undefined \<Longrightarrow>
   calculateNDVIStats cat an ps = Inl (UnknownSatellite (satelliteId ps))"
  by (simp add: calculateNDVIStats_def)

lemma SATELLITES_get_Undefined:
  "(SATELLITES_get k = Undefined) =
     (k \<notin> set (map fst SATELLITES) \<and> k \<notin> set (map fst Object_prototype))"
  by (auto simp: SATELLITES_get_def split: option.splits
        dest: map_of_SomeD weak_map_of_SomeI simp flip: map_of_eq_None_iff)

end
